theory Spec2Isabelle
  imports Main
begin

section \<open>Data model (src/domain/models.py)\<close>

text \<open>
  A Python \<open>date\<close> is its proleptic ordinal, an integer. A Python \<open>time\<close> is kept at the
  resolution of the persisted format \<open>%H:%M\<close>: an hour and a minute. On such times the
  round trip \<open>time.fromisoformat(t.strftime("%H:%M"))\<close> of the repository is the identity,
  as is \<open>date.fromisoformat(d.isoformat())\<close>, so stored items hold the values themselves.
\<close>

type_synonym date = int

record time =
  hour :: nat
  minute :: nat

text \<open>
  \<open>datetime.combine(d, t)\<close> as the number of minutes since the start of day 0;
  \<open>timedelta(minutes=n)\<close> is then the integer \<open>n\<close>, and comparing two datetimes is
  comparing these integers.
\<close>

definition combine :: "date \<Rightarrow> time \<Rightarrow> int" where
  "combine d t = (d * 24 + int (hour t)) * 60 + int (minute t)"

record Student =
  stu_id :: string
  stu_name :: string
  stu_email :: string
  isAdmin :: bool

record WorkingHour =
  meal :: string
  from_time :: time
  to_time :: time

record Canteen =
  can_id :: string
  can_name :: string
  can_location :: string
  capacity :: int
  can_workingHours :: "WorkingHour list"

text \<open>
  \<open>Reservation.id\<close> is \<open>Optional[str]\<close>: the service builds a reservation without an id
  and the repository assigns one. \<open>status\<close> is a Python string with default \<open>"Active"\<close>.
\<close>

record Reservation =
  res_id :: "string option"
  studentId :: string
  canteenId :: string
  res_date :: date
  res_time :: time
  duration :: int
  status :: string

record Restriction =
  rst_id :: "string option"
  rst_canteenId :: string
  startDate :: date
  endDate :: date
  rst_workingHours :: "WorkingHour list"

text \<open>The fields of \<open>CreateReservationDTO\<close> that \<open>ReservationService\<close> reads.\<close>

record CreateReservationDTO =
  dto_studentId :: string
  dto_canteenId :: string
  dto_date :: date
  dto_time :: time
  dto_duration :: int

text \<open>The fields of \<open>CreateRestrictionDTO\<close> (src/dto/restriction_dto.py).\<close>

record CreateRestrictionDTO =
  dto_startDate :: date
  dto_endDate :: date
  dto_workingHours :: "WorkingHour list"

section \<open>The store (src/repository/repo.py)\<close>

text \<open>
  Each table is the list of its items; an item carries its own key attribute \<open>id\<close>.
  \<open>get_item\<close> returns the item with the given key, \<open>put_item\<close> replaces the item with the
  same key or adds a new one, a query on an index returns the items with the given
  attribute value.
\<close>

record store =
  students_table :: "Student list"
  canteens_table :: "Canteen list"
  reservations_table :: "Reservation list"
  restrictions_table :: "Restriction list"

definition get_item :: "('a \<Rightarrow> 'k) \<Rightarrow> 'k \<Rightarrow> 'a list \<Rightarrow> 'a option" where
  "get_item key k tbl = find (\<lambda>x. key x = k) tbl"

definition put_item :: "('a \<Rightarrow> 'k) \<Rightarrow> 'a \<Rightarrow> 'a list \<Rightarrow> 'a list" where
  "put_item key item tbl =
     (if list_ex (\<lambda>x. key x = key item) tbl
      then map (\<lambda>x. if key x = key item then item else x) tbl
      else tbl @ [item])"

definition get_student_by_id :: "store \<Rightarrow> string \<Rightarrow> Student option" where
  "get_student_by_id repo student_id = get_item stu_id student_id (students_table repo)"

definition get_canteen_by_id :: "store \<Rightarrow> string \<Rightarrow> Canteen option" where
  "get_canteen_by_id repo canteen_id = get_item can_id canteen_id (canteens_table repo)"

text \<open>\<open>new_id\<close> is the value of \<open>str(uuid.uuid4())\<close>.\<close>

definition add_reservation :: "string \<Rightarrow> Reservation \<Rightarrow> store \<Rightarrow> Reservation \<times> store" where
  "add_reservation new_id data repo =
     (let item = data\<lparr>res_id := Some new_id\<rparr>
      in (item, repo\<lparr>reservations_table := put_item res_id item (reservations_table repo)\<rparr>))"

definition get_reservation_by_id :: "store \<Rightarrow> string \<Rightarrow> Reservation option" where
  "get_reservation_by_id repo reservation_id =
     get_item res_id (Some reservation_id) (reservations_table repo)"

definition get_reservations_by_student_id :: "store \<Rightarrow> string \<Rightarrow> Reservation list" where
  "get_reservations_by_student_id repo student_id =
     filter (\<lambda>item. studentId item = student_id) (reservations_table repo)"

text \<open>\<open>DynamoRepository.cancel_reservation\<close>: the updated reservation, if any, and the store.\<close>

definition repo_cancel_reservation :: "store \<Rightarrow> string \<Rightarrow> Reservation option \<times> store" where
  "repo_cancel_reservation repo reservation_id =
     (case get_reservation_by_id repo reservation_id of
        None \<Rightarrow> (None, repo)
      | Some reservation \<Rightarrow>
          (let item = reservation\<lparr>status := ''Cancelled''\<rparr>
           in (Some item,
               repo\<lparr>reservations_table := put_item res_id item (reservations_table repo)\<rparr>)))"

definition get_active_reservations_by_canteen_and_date ::
  "store \<Rightarrow> string \<Rightarrow> date \<Rightarrow> Reservation list" where
  "get_active_reservations_by_canteen_and_date repo canteen_id reservation_date =
     filter (\<lambda>item. status item = ''Active'' \<and> res_date item = reservation_date)
       (filter (\<lambda>item. canteenId item = canteen_id) (reservations_table repo))"

text \<open>
  Modelled from the spec: \<open>get_restrictions_by_canteen_id\<close>, which the reservation service
  calls and the repository under src/ does not define. The spec lists it as
  \<open>listRestrictionsByCanteen(canteenId) -> [Restriction]\<close>: the restrictions of the canteen.
\<close>

definition get_restrictions_by_canteen_id :: "store \<Rightarrow> string \<Rightarrow> Restriction list" where
  "get_restrictions_by_canteen_id repo canteen_id =
     filter (\<lambda>r. rst_canteenId r = canteen_id) (restrictions_table repo)"

section \<open>Reservation service (src/services/reservation_service.py)\<close>

text \<open>
  One constructor for each \<open>raise\<close> of the services. All are \<open>ValueError\<close> in the source,
  told apart by their message, except \<open>Forbidden\<close>, which is \<open>PermissionError\<close>.
  In the spec's kinds: \<open>PastDate\<close>, \<open>BadDuration\<close>, \<open>MisalignedMinute\<close> and \<open>NoMealType\<close>
  are \<open>InvalidInput\<close>; \<open>StudentNotFound\<close>, \<open>CanteenNotFound\<close> and \<open>ReservationNotFound\<close>
  are \<open>NotFound\<close>.
\<close>

datatype error =
    PastDate
  | BadDuration
  | MisalignedMinute
  | StudentNotFound
  | CanteenNotFound
  | Conflict
  | NoMealType
  | QuotaExceeded
  | Closed
  | CapacityExceeded
  | ReservationNotFound
  | Forbidden
  | AlreadyCancelled
  | InvalidRange
  | OutsideNominalHours
  | RestrictionConflict

text \<open>The half-open overlap test of lines 41 and 78.\<close>

definition overlaps :: "int \<Rightarrow> int \<Rightarrow> int \<Rightarrow> int \<Rightarrow> bool" where
  "overlaps aStart aEnd bStart bEnd = (aStart < bEnd \<and> aEnd > bStart)"

text \<open>The containment test of line 64.\<close>

definition within :: "int \<Rightarrow> int \<Rightarrow> int \<Rightarrow> int \<Rightarrow> bool" where
  "within slotStart slotEnd windowStart windowEnd =
     (windowStart \<le> slotStart \<and> slotEnd \<le> windowEnd)"

text \<open>\<open>str.lower\<close> on ASCII labels.\<close>

definition lower_char :: "char \<Rightarrow> char" where
  "lower_char c =
     (let n = (of_char c :: nat) in if 65 \<le> n \<and> n \<le> 90 then char_of (n + 32) else c)"

definition lower :: "string \<Rightarrow> string" where
  "lower s = map lower_char s"

definition validate_reservation_payload ::
  "date \<Rightarrow> CreateReservationDTO \<Rightarrow> store \<Rightarrow> error + (time \<times> Canteen)" where
  "validate_reservation_payload today payload repo =
     (if dto_date payload < today then Inl PastDate
      else if dto_duration payload \<notin> set [30, 60] then Inl BadDuration
      else let reservation_time = dto_time payload in
        if minute reservation_time \<notin> set [0, 30] then Inl MisalignedMinute
        else case get_student_by_id repo (dto_studentId payload) of
          None \<Rightarrow> Inl StudentNotFound
        | Some _ \<Rightarrow>
           (case get_canteen_by_id repo (dto_canteenId payload) of
              None \<Rightarrow> Inl CanteenNotFound
            | Some canteen \<Rightarrow> Inr (reservation_time, canteen)))"

fun student_overlap_loop :: "Reservation list \<Rightarrow> int \<Rightarrow> int \<Rightarrow> error + unit" where
  "student_overlap_loop [] requested_start requested_end = Inr ()"
| "student_overlap_loop (res # rest) requested_start requested_end =
     (if status res \<noteq> ''Active''
      then student_overlap_loop rest requested_start requested_end
      else let res_start = combine (res_date res) (res_time res);
               res_end = res_start + duration res
           in if overlaps requested_start requested_end res_start res_end
              then Inl Conflict
              else student_overlap_loop rest requested_start requested_end)"

definition check_student_overlap :: "store \<Rightarrow> string \<Rightarrow> int \<Rightarrow> int \<Rightarrow> error + unit" where
  "check_student_overlap repo student_id requested_start requested_end =
     student_overlap_loop (get_reservations_by_student_id repo student_id)
       requested_start requested_end"

text \<open>The loop of lines 52 to 55: the first restriction whose range covers the date.\<close>

fun active_restriction_loop :: "Restriction list \<Rightarrow> date \<Rightarrow> Restriction option" where
  "active_restriction_loop [] d = None"
| "active_restriction_loop (r # rest) d =
     (if startDate r \<le> d \<and> d \<le> endDate r then Some r else active_restriction_loop rest d)"

text \<open>The loop of lines 60 to 66.\<close>

fun is_open_loop :: "WorkingHour list \<Rightarrow> date \<Rightarrow> int \<Rightarrow> int \<Rightarrow> bool" where
  "is_open_loop [] d slot_start slot_end = False"
| "is_open_loop (h # rest) d slot_start slot_end =
     (let meal_start = combine d (from_time h);
          meal_end = combine d (to_time h)
      in if meal_start \<le> slot_start \<and> slot_end \<le> meal_end then True
         else is_open_loop rest d slot_start slot_end)"

text \<open>The loop of lines 74 to 79, with the counter as accumulator.\<close>

fun reservations_in_slot_loop :: "Reservation list \<Rightarrow> int \<Rightarrow> int \<Rightarrow> int \<Rightarrow> int" where
  "reservations_in_slot_loop [] slot_start slot_end n = n"
| "reservations_in_slot_loop (res # rest) slot_start slot_end n =
     (let res_start = combine (res_date res) (res_time res);
          res_end = res_start + duration res
      in if slot_start < res_end \<and> slot_end > res_start
         then reservations_in_slot_loop rest slot_start slot_end (n + 1)
         else reservations_in_slot_loop rest slot_start slot_end n)"

definition check_capacity :: "store \<Rightarrow> Canteen \<Rightarrow> date \<Rightarrow> time \<Rightarrow> int \<Rightarrow> error + unit" where
  "check_capacity repo canteen d start_time dur =
     (let slot_start = combine d start_time;
          slot_end = slot_start + dur;
          restrictions = get_restrictions_by_canteen_id repo (can_id canteen);
          active_restriction = active_restriction_loop restrictions d;
          working_hours_to_check =
            (case active_restriction of
               Some r \<Rightarrow> rst_workingHours r
             | None \<Rightarrow> can_workingHours canteen);
          is_open = is_open_loop working_hours_to_check d slot_start slot_end
      in if \<not> is_open then Inl Closed
         else let active_reservations =
                    get_active_reservations_by_canteen_and_date repo (can_id canteen) d;
                  current_reservations_in_slot =
                    reservations_in_slot_loop active_reservations slot_start slot_end 0;
                  remaining_capacity = capacity canteen - current_reservations_in_slot
              in if remaining_capacity \<le> 0 then Inl CapacityExceeded else Inr ())"

text \<open>\<open>_get_meal_type\<close>; \<open>dummy_date\<close> is \<open>date.today()\<close>.\<close>

fun get_meal_type :: "date \<Rightarrow> time \<Rightarrow> WorkingHour list \<Rightarrow> string option" where
  "get_meal_type dummy_date reservation_time [] = None"
| "get_meal_type dummy_date reservation_time (h # rest) =
     (let requested_dt = combine dummy_date reservation_time;
          meal_start = combine dummy_date (from_time h);
          meal_end = combine dummy_date (to_time h)
      in if meal_start \<le> requested_dt \<and> requested_dt < meal_end then Some (lower (meal h))
         else get_meal_type dummy_date reservation_time rest)"

text \<open>Python truthiness of an \<open>Optional[str]\<close>: \<open>None\<close> and the empty string are falsy.\<close>

fun truthy :: "string option \<Rightarrow> bool" where
  "truthy None = False"
| "truthy (Some s) = (s \<noteq> [])"

text \<open>The loop of lines 136 to 142, with the counter as accumulator.\<close>

fun meal_type_count_loop ::
  "date \<Rightarrow> store \<Rightarrow> Reservation list \<Rightarrow> string \<Rightarrow> int \<Rightarrow> int" where
  "meal_type_count_loop today repo [] meal_type n = n"
| "meal_type_count_loop today repo (res # rest) meal_type n =
     (case get_canteen_by_id repo (canteenId res) of
        None \<Rightarrow> meal_type_count_loop today repo rest meal_type n
      | Some canteen \<Rightarrow>
         (let existing_meal_type = get_meal_type today (res_time res) (can_workingHours canteen)
          in if truthy existing_meal_type \<and> existing_meal_type = Some meal_type
             then meal_type_count_loop today repo rest meal_type (n + 1)
             else meal_type_count_loop today repo rest meal_type n))"

definition check_meal_type_limit ::
  "date \<Rightarrow> store \<Rightarrow> string \<Rightarrow> date \<Rightarrow> string \<Rightarrow> error + unit" where
  "check_meal_type_limit today repo student_id reservation_date meal_type =
     (let todays_reservations =
            filter (\<lambda>res. status res = ''Active'' \<and> res_date res = reservation_date)
              (get_reservations_by_student_id repo student_id);
          meal_type_count = meal_type_count_loop today repo todays_reservations meal_type 0
      in if meal_type_count \<ge> 2 then Inl QuotaExceeded else Inr ())"

text \<open>
  The constructor call \<open>Reservation(studentId=..., canteenId=..., date=..., time=...,
  duration=...)\<close> of lines 103 to 109: \<open>id\<close> and \<open>status\<close> take their defaults.
\<close>

definition new_Reservation :: "string \<Rightarrow> string \<Rightarrow> date \<Rightarrow> time \<Rightarrow> int \<Rightarrow> Reservation" where
  "new_Reservation sid cid d t dur =
     \<lparr>res_id = None, studentId = sid, canteenId = cid, res_date = d, res_time = t,
      duration = dur, status = ''Active''\<rparr>"

text \<open>
  \<open>create_reservation\<close> returns its result, a reservation or the error raised, and the
  store as the call leaves it. \<open>today\<close> is \<open>date.today()\<close> and \<open>new_id\<close> the identifier
  that \<open>uuid4\<close> draws.
\<close>

definition create_reservation ::
  "date \<Rightarrow> string \<Rightarrow> CreateReservationDTO \<Rightarrow> store \<Rightarrow> (error + Reservation) \<times> store" where
  "create_reservation today new_id payload repo =
     (case validate_reservation_payload today payload repo of
        Inl e \<Rightarrow> (Inl e, repo)
      | Inr (reservation_time, canteen) \<Rightarrow>
         (let requested_start = combine (dto_date payload) reservation_time;
              requested_end = requested_start + dto_duration payload
          in (case check_student_overlap repo (dto_studentId payload)
                     requested_start requested_end of
                Inl e \<Rightarrow> (Inl e, repo)
              | Inr u \<Rightarrow>
                 (let meal_type = get_meal_type today reservation_time (can_workingHours canteen)
                  in (case meal_type of
                        None \<Rightarrow> (Inl NoMealType, repo)
                      | Some mt \<Rightarrow>
                         (if \<not> truthy meal_type then (Inl NoMealType, repo)
                          else (case check_meal_type_limit today repo (dto_studentId payload)
                                       (dto_date payload) mt of
                                  Inl e \<Rightarrow> (Inl e, repo)
                                | Inr u \<Rightarrow>
                                   (case check_capacity repo canteen (dto_date payload)
                                           reservation_time (dto_duration payload) of
                                      Inl e \<Rightarrow> (Inl e, repo)
                                    | Inr u \<Rightarrow>
                                       (let new_reservation =
                                              new_Reservation (dto_studentId payload)
                                                (dto_canteenId payload) (dto_date payload)
                                                reservation_time (dto_duration payload)
                                        in (case add_reservation new_id new_reservation repo of
                                              (stored, repo') \<Rightarrow>
                                                (Inr stored, repo')))))))))))"

text \<open>
  \<open>ReservationService.cancel_reservation\<close>: the result is what
  \<open>repo.cancel_reservation\<close> returns, an \<open>Optional[Reservation]\<close>.
\<close>

definition cancel_reservation ::
  "string \<Rightarrow> string \<Rightarrow> store \<Rightarrow> (error + Reservation option) \<times> store" where
  "cancel_reservation reservation_id student_id repo =
     (case get_reservation_by_id repo reservation_id of
        None \<Rightarrow> (Inl ReservationNotFound, repo)
      | Some reservation \<Rightarrow>
         if studentId reservation \<noteq> student_id then (Inl Forbidden, repo)
         else if status reservation = ''Cancelled'' then (Inl AlreadyCancelled, repo)
         else case repo_cancel_reservation repo reservation_id of
                (updated_reservation, repo') \<Rightarrow> (Inr updated_reservation, repo'))"

text \<open>The interval of a stored reservation: \<open>res_start\<close> and \<open>res_end\<close> of lines 38, 39, 75, 76.\<close>

definition reservation_start :: "Reservation \<Rightarrow> int" where
  "reservation_start res = combine (res_date res) (res_time res)"

definition reservation_end :: "Reservation \<Rightarrow> int" where
  "reservation_end res = reservation_start res + duration res"

text \<open>The requested interval: \<open>requested_start\<close> and \<open>requested_end\<close> of lines 90 and 91.\<close>

definition requested_start :: "CreateReservationDTO \<Rightarrow> int" where
  "requested_start payload = combine (dto_date payload) (dto_time payload)"

definition requested_end :: "CreateReservationDTO \<Rightarrow> int" where
  "requested_end payload = requested_start payload + dto_duration payload"

text \<open>
  The meal classification of a stored reservation against the nominal hours of its own
  canteen, as lines 137 to 139 compute it; \<open>None\<close> when the canteen does not resolve.
\<close>

definition classify_reservation :: "date \<Rightarrow> store \<Rightarrow> Reservation \<Rightarrow> string option" where
  "classify_reservation today repo res =
     (case get_canteen_by_id repo (canteenId res) of
        None \<Rightarrow> None
      | Some canteen \<Rightarrow> get_meal_type today (res_time res) (can_workingHours canteen))"

text \<open>
  The errors of the checks in their order: those of the payload checks (steps 1 to 4 of the
  contract), those of the checks before the quota check, before the effective-hours check,
  and before the capacity check.
\<close>

definition payload_errors :: "error set" where
  "payload_errors = {PastDate, BadDuration, MisalignedMinute, StudentNotFound, CanteenNotFound}"

definition errors_before_quota :: "error set" where
  "errors_before_quota = payload_errors \<union> {Conflict, NoMealType}"

definition errors_before_closed :: "error set" where
  "errors_before_closed = errors_before_quota \<union> {QuotaExceeded}"

definition errors_before_capacity :: "error set" where
  "errors_before_capacity = errors_before_closed \<union> {Closed}"

text \<open>
  Effective hours, in the spec's words: "if a Restriction's date range covers \<open>date\<close>, use the
  restriction's WorkingHour list; otherwise use canteen's nominal hours". Where several
  restrictions of the canteen cover the date, the first one stored is taken.
\<close>

definition effective_hours :: "store \<Rightarrow> Canteen \<Rightarrow> date \<Rightarrow> WorkingHour list" where
  "effective_hours repo canteen d =
     (case find (\<lambda>r. rst_canteenId r = can_id canteen \<and> startDate r \<le> d \<and> d \<le> endDate r)
             (restrictions_table repo) of
        Some r \<Rightarrow> rst_workingHours r
      | None \<Rightarrow> can_workingHours canteen)"

text \<open>
  In the spec's words, step 5: the student's Active reservations, on any canteen, whose
  interval overlaps the requested one.
\<close>

definition student_conflicts :: "store \<Rightarrow> CreateReservationDTO \<Rightarrow> Reservation list" where
  "student_conflicts repo payload =
     filter (\<lambda>r. studentId r = dto_studentId payload \<and> status r = ''Active'' \<and>
                 overlaps (requested_start payload) (requested_end payload)
                   (reservation_start r) (reservation_end r))
       (reservations_table repo)"

text \<open>
  In the spec's words, step 7: the student's Active reservations on the requested date
  classified to the meal type \<open>mt\<close>.
\<close>

definition same_meal_reservations ::
  "date \<Rightarrow> store \<Rightarrow> CreateReservationDTO \<Rightarrow> string \<Rightarrow> Reservation list" where
  "same_meal_reservations today repo payload mt =
     filter (\<lambda>r. studentId r = dto_studentId payload \<and> status r = ''Active'' \<and>
                 res_date r = dto_date payload \<and>
                 classify_reservation today repo r = Some mt)
       (reservations_table repo)"

text \<open>
  In the spec's words, step 9: the Active reservations at the requested canteen and date
  whose interval overlaps the requested one.
\<close>

definition overlapping_reservations :: "store \<Rightarrow> CreateReservationDTO \<Rightarrow> Reservation list" where
  "overlapping_reservations repo payload =
     filter (\<lambda>r. canteenId r = dto_canteenId payload \<and> status r = ''Active'' \<and>
                 res_date r = dto_date payload \<and>
                 overlaps (requested_start payload) (requested_end payload)
                   (reservation_start r) (reservation_end r))
       (reservations_table repo)"

text \<open>
  In the spec's words, step 8: the requested slot is fully \<open>within\<close> the window of a
  working hour on the requested date.
\<close>

definition slot_within :: "CreateReservationDTO \<Rightarrow> WorkingHour \<Rightarrow> bool" where
  "slot_within payload h =
     within (requested_start payload) (requested_end payload)
       (combine (dto_date payload) (from_time h)) (combine (dto_date payload) (to_time h))"

text \<open>
  What \<open>create_reservation\<close> does once the payload is valid and the canteen is \<open>c\<close>: the
  remaining checks in their order, each in the spec's words.
\<close>

definition after_validation ::
  "date \<Rightarrow> string \<Rightarrow> CreateReservationDTO \<Rightarrow> store \<Rightarrow> Canteen \<Rightarrow> (error + Reservation) \<times> store"
  where
  "after_validation today nid p repo c =
     (if student_conflicts repo p \<noteq> [] then (Inl Conflict, repo)
      else (case get_meal_type today (dto_time p) (can_workingHours c) of
              None \<Rightarrow> (Inl NoMealType, repo)
            | Some mt \<Rightarrow>
               if mt = [] then (Inl NoMealType, repo)
               else if 2 \<le> length (same_meal_reservations today repo p mt)
               then (Inl QuotaExceeded, repo)
               else if \<not> list_ex (slot_within p) (effective_hours repo c (dto_date p))
               then (Inl Closed, repo)
               else if capacity c \<le> int (length (overlapping_reservations repo p))
               then (Inl CapacityExceeded, repo)
               else (Inr (fst (add_reservation nid (new_Reservation (dto_studentId p)
                             (dto_canteenId p) (dto_date p) (dto_time p) (dto_duration p)) repo)),
                     snd (add_reservation nid (new_Reservation (dto_studentId p)
                             (dto_canteenId p) (dto_date p) (dto_time p) (dto_duration p)) repo))))"

section \<open>Restriction engine\<close>

text \<open>
  Modelled from the spec: \<open>add_restriction\<close> of the repository, which is not under src/.
  The spec lists it as \<open>addRestriction(r) -> Restriction\<close>, persisting with a generated id.
\<close>

definition add_restriction :: "string \<Rightarrow> Restriction \<Rightarrow> store \<Rightarrow> Restriction \<times> store" where
  "add_restriction new_id data repo =
     (let item = data\<lparr>rst_id := Some new_id\<rparr>
      in (item, repo\<lparr>restrictions_table := put_item rst_id item (restrictions_table repo)\<rparr>))"

text \<open>
  Modelled from the spec: the removal of a restriction, which the test
  \<open>test_delete_restriction_does_not_uncancel\<close> performs on the repository directly
  (\<open>del repo._restrictions[id]\<close>) and no code under src/ defines.
\<close>

definition delete_restriction :: "string \<Rightarrow> store \<Rightarrow> store" where
  "delete_restriction restriction_id repo =
     repo\<lparr>restrictions_table :=
       filter (\<lambda>r. rst_id r \<noteq> Some restriction_id) (restrictions_table repo)\<rparr>"

text \<open>
  Modelled from the spec: admissibility of a reservation against a list of working hours,
  "using the same \<open>within\<close> containment test" as the reservation validator.
\<close>

definition admissible :: "WorkingHour list \<Rightarrow> Reservation \<Rightarrow> bool" where
  "admissible hours res =
     list_ex (\<lambda>h. within (reservation_start res) (reservation_end res)
                    (combine (res_date res) (from_time h)) (combine (res_date res) (to_time h)))
       hours"

text \<open>
  Modelled from the spec: the reservations that the cascade of a restriction cancels,
  "every Active reservation on that canteen whose date falls in [startDate, endDate]" that is
  inadmissible against the restriction's working hours.
\<close>

definition cascade_cancels :: "Restriction \<Rightarrow> Reservation \<Rightarrow> bool" where
  "cascade_cancels restriction res =
     (status res = ''Active'' \<and> canteenId res = rst_canteenId restriction \<and>
      startDate restriction \<le> res_date res \<and> res_date res \<le> endDate restriction \<and>
      \<not> admissible (rst_workingHours restriction) res)"

text \<open>
  Modelled from the spec: the cascade (step 6 of \<open>createRestriction\<close>) over a snapshot of the
  reservations, cancelling each inadmissible one through the repository's
  \<open>cancel_reservation\<close>. The notification of each cancellation is fire-and-forget and leaves
  the store alone; it is not part of the model.
\<close>

fun cascade :: "Restriction \<Rightarrow> Reservation list \<Rightarrow> store \<Rightarrow> store" where
  "cascade restriction [] repo = repo"
| "cascade restriction (res # rest) repo =
     (if cascade_cancels restriction res
      then (case res_id res of
              None \<Rightarrow> cascade restriction rest repo
            | Some reservation_id \<Rightarrow>
                cascade restriction rest (snd (repo_cancel_reservation repo reservation_id)))
      else cascade restriction rest repo)"

text \<open>The time of day in minutes, to compare a restriction's window with a nominal one.\<close>

definition minute_of_day :: "time \<Rightarrow> int" where
  "minute_of_day t = combine 0 t"

text \<open>
  Modelled from the spec: \<open>CanteenService.create_restriction\<close>
  (src/services/canteen_service.py is not under src/), steps 1 to 7 of the contract of
  \<open>createRestriction(actorId, canteenId, payload)\<close>. Containment in the nominal hours is
  "contained in at least one nominal window", whatever its meal label. The contract needs the
  canteen's nominal hours in step 3 and names no error for a canteen that does not resolve;
  the model answers \<open>CanteenNotFound\<close> there.
\<close>

definition create_restriction ::
  "string \<Rightarrow> string \<Rightarrow> string \<Rightarrow> CreateRestrictionDTO \<Rightarrow> store \<Rightarrow> (error + Restriction) \<times> store"
  where
  "create_restriction new_id actor_id canteen_id payload repo =
     (case get_student_by_id repo actor_id of
        None \<Rightarrow> (Inl Forbidden, repo)
      | Some actor \<Rightarrow>
         (if \<not> isAdmin actor then (Inl Forbidden, repo)
          else if dto_endDate payload < dto_startDate payload then (Inl InvalidRange, repo)
          else (case get_canteen_by_id repo canteen_id of
                  None \<Rightarrow> (Inl CanteenNotFound, repo)
                | Some canteen \<Rightarrow>
                   (if list_ex (\<lambda>w. \<not> list_ex (\<lambda>n. within (minute_of_day (from_time w))
                                                   (minute_of_day (to_time w))
                                                   (minute_of_day (from_time n))
                                                   (minute_of_day (to_time n)))
                                          (can_workingHours canteen))
                         (dto_workingHours payload)
                    then (Inl OutsideNominalHours, repo)
                    else if list_ex (\<lambda>r. startDate r \<le> dto_endDate payload \<and>
                                          dto_startDate payload \<le> endDate r)
                              (get_restrictions_by_canteen_id repo canteen_id)
                    then (Inl RestrictionConflict, repo)
                    else (case add_restriction new_id
                                 \<lparr>rst_id = None, rst_canteenId = canteen_id,
                                  startDate = dto_startDate payload,
                                  endDate = dto_endDate payload,
                                  rst_workingHours = dto_workingHours payload\<rparr> repo of
                            (restriction, repo') \<Rightarrow>
                              (Inr restriction,
                               cascade restriction (reservations_table repo') repo'))))))"

section \<open>The exposed operations as a transition relation\<close>

text \<open>
  One step of the store is one call of an exposed operation, whatever its arguments and
  whether it succeeds or raises. The identifier that \<open>uuid4\<close> draws for a new reservation is
  one that no stored reservation has.
\<close>

inductive step :: "store \<Rightarrow> store \<Rightarrow> bool" where
  step_create_reservation:
    "get_reservation_by_id repo new_id = None \<Longrightarrow>
     step repo (snd (create_reservation today new_id payload repo))"
| step_cancel_reservation:
    "step repo (snd (cancel_reservation reservation_id student_id repo))"
| step_create_restriction:
    "step repo (snd (create_restriction new_id actor_id canteen_id rpayload repo))"
| step_delete_restriction:
    "step repo (delete_restriction restriction_id repo)"

inductive run :: "store \<Rightarrow> store \<Rightarrow> bool" where
  run_refl: "run repo repo"
| run_step: "run repo repo' \<Longrightarrow> step repo' repo'' \<Longrightarrow> run repo repo''"

text \<open>
  The keys of the reservations table: every stored reservation has an id and no two
  share one.
\<close>

definition reservation_keys_ok :: "store \<Rightarrow> bool" where
  "reservation_keys_ok repo =
     (distinct (map res_id (reservations_table repo)) \<and>
      list_all (\<lambda>r. res_id r \<noteq> None) (reservations_table repo))"

section \<open>Scenarios of the test suites\<close>

text \<open>
  The fixtures of tests/test_integration.py and tests/test_restrictions.py: a canteen with
  breakfast 08:00 to 10:00 and lunch 12:00 to 15:00, here with capacity 2; three students and
  an admin; the day of the requests, 2025-12-10 (ordinal 739595), and the day before as today.
\<close>

definition mk_time :: "nat \<Rightarrow> nat \<Rightarrow> time" where
  "mk_time h m = \<lparr>hour = h, minute = m\<rparr>"

definition ex_today :: date where
  "ex_today = 739594"

definition ex_day :: date where
  "ex_day = 739595"

definition ex_breakfast :: WorkingHour where
  "ex_breakfast = \<lparr>meal = ''breakfast'', from_time = mk_time 8 0, to_time = mk_time 10 0\<rparr>"

definition ex_lunch :: WorkingHour where
  "ex_lunch = \<lparr>meal = ''lunch'', from_time = mk_time 12 0, to_time = mk_time 15 0\<rparr>"

definition ex_short_breakfast :: WorkingHour where
  "ex_short_breakfast = \<lparr>meal = ''breakfast'', from_time = mk_time 8 0, to_time = mk_time 9 0\<rparr>"

definition ex_canteen :: Canteen where
  "ex_canteen =
     \<lparr>can_id = ''c1'', can_name = ''Studentski Grad Test'', can_location = ''Beograd'',
      capacity = 2, can_workingHours = [ex_breakfast, ex_lunch]\<rparr>"

definition ex_students :: "Student list" where
  "ex_students =
     [\<lparr>stu_id = ''s1'', stu_name = ''Student 1'', stu_email = ''test1@test.com'', isAdmin = False\<rparr>,
      \<lparr>stu_id = ''s2'', stu_name = ''Student 2'', stu_email = ''test2@test.com'', isAdmin = False\<rparr>,
      \<lparr>stu_id = ''s3'', stu_name = ''Student 3'', stu_email = ''test3@test.com'', isAdmin = False\<rparr>,
      \<lparr>stu_id = ''a1'', stu_name = ''Admin'', stu_email = ''admin@test.com'', isAdmin = True\<rparr>]"

text \<open>A store with the given reservations and restrictions.\<close>

definition ex_store :: "Reservation list \<Rightarrow> Restriction list \<Rightarrow> store" where
  "ex_store rs xs =
     \<lparr>students_table = ex_students, canteens_table = [ex_canteen],
      reservations_table = rs, restrictions_table = xs\<rparr>"

text \<open>A stored reservation at the canteen, and a request for the day \<open>ex_day\<close>.\<close>

definition ex_res :: "string \<Rightarrow> string \<Rightarrow> date \<Rightarrow> nat \<Rightarrow> nat \<Rightarrow> int \<Rightarrow> string \<Rightarrow> Reservation" where
  "ex_res rid sid d h m dur st =
     \<lparr>res_id = Some rid, studentId = sid, canteenId = ''c1'', res_date = d,
      res_time = mk_time h m, duration = dur, status = st\<rparr>"

definition ex_request :: "string \<Rightarrow> nat \<Rightarrow> nat \<Rightarrow> int \<Rightarrow> CreateReservationDTO" where
  "ex_request sid h m dur =
     \<lparr>dto_studentId = sid, dto_canteenId = ''c1'', dto_date = ex_day,
      dto_time = mk_time h m, dto_duration = dur\<rparr>"

text \<open>The restriction of the cascade test: breakfast shortened to 08:00 to 09:00 on \<open>ex_day\<close>.\<close>

definition ex_restriction_payload :: CreateRestrictionDTO where
  "ex_restriction_payload =
     \<lparr>dto_startDate = ex_day, dto_endDate = ex_day, dto_workingHours = [ex_short_breakfast]\<rparr>"

definition ex_restriction :: Restriction where
  "ex_restriction =
     \<lparr>rst_id = Some ''x1'', rst_canteenId = ''c1'', startDate = ex_day, endDate = ex_day,
      rst_workingHours = [ex_short_breakfast]\<rparr>"

text \<open>The reservations of \<open>test_restriction_shortened_hours_boundary_cases\<close>, with one the
  day before and one the day after.\<close>

definition ex_cascade_reservations :: "Reservation list" where
  "ex_cascade_reservations =
     [ex_res ''r1'' ''s1'' ex_day 8 0 30 ''Active'',
      ex_res ''r2'' ''s1'' ex_day 8 30 30 ''Active'',
      ex_res ''r3'' ''s1'' ex_day 8 30 60 ''Active'',
      ex_res ''r4'' ''s1'' ex_day 9 0 30 ''Active'',
      ex_res ''r5'' ''s1'' (ex_day - 1) 9 0 30 ''Active'',
      ex_res ''r6'' ''s1'' (ex_day + 1) 9 0 30 ''Active'']"

text \<open>A non-working day on \<open>ex_day\<close>.\<close>

definition ex_closed_payload :: CreateRestrictionDTO where
  "ex_closed_payload = \<lparr>dto_startDate = ex_day, dto_endDate = ex_day, dto_workingHours = []\<rparr>"

text \<open>Lunch at 12:00 with one Active reservation and a Cancelled one, and with two Active.\<close>

definition ex_lunch_one :: store where
  "ex_lunch_one =
     ex_store [ex_res ''r1'' ''s1'' ex_day 12 0 30 ''Active'',
               ex_res ''r0'' ''s3'' ex_day 12 0 30 ''Cancelled''] []"

definition ex_lunch_full :: store where
  "ex_lunch_full =
     ex_store [ex_res ''r1'' ''s1'' ex_day 12 0 30 ''Active'',
               ex_res ''r2'' ''s2'' ex_day 12 0 30 ''Active''] []"

text \<open>Student \<open>s1\<close> holds 13:00 to 13:30.\<close>

definition ex_one_pm :: store where
  "ex_one_pm = ex_store [ex_res ''r1'' ''s1'' ex_day 13 0 30 ''Active''] []"

text \<open>Student \<open>s1\<close> holds one breakfast reservation, and two.\<close>

definition ex_breakfast_one :: store where
  "ex_breakfast_one = ex_store [ex_res ''r1'' ''s1'' ex_day 8 0 30 ''Active''] []"

definition ex_breakfast_two :: store where
  "ex_breakfast_two =
     ex_store [ex_res ''r1'' ''s1'' ex_day 8 0 30 ''Active'',
               ex_res ''r2'' ''s1'' ex_day 8 30 30 ''Active''] []"

text \<open>No reservation; no restriction, and the restriction that shortens breakfast.\<close>

definition ex_empty :: store where
  "ex_empty = ex_store [] []"

definition ex_restricted :: store where
  "ex_restricted = ex_store [] [ex_restriction]"

text \<open>The stores of the cascade tests: the six reservations above, and one reservation
  from 08:00 to 09:00.\<close>

definition ex_cascade_store :: store where
  "ex_cascade_store = ex_store ex_cascade_reservations []"

definition ex_booked :: store where
  "ex_booked = ex_store [ex_res ''r1'' ''s1'' ex_day 8 0 60 ''Active''] []"

section \<open>The store's tables\<close>

lemma get_item_Some_key: "get_item key k tbl = Some x \<Longrightarrow> key x = k \<and> x \<in> set tbl"
  unfolding get_item_def by (induction tbl) (auto split: if_splits)

lemma get_item_None_iff: "get_item key k tbl = None \<longleftrightarrow> (\<forall>x\<in>set tbl. key x \<noteq> k)"
  unfolding get_item_def by (induction tbl) auto

lemma get_item_map_replace:
  "key item = k' \<Longrightarrow>
   get_item key k (map (\<lambda>x. if key x = k' then item else x) tbl) =
     (if k = k' then (if list_ex (\<lambda>x. key x = k') tbl then Some item else None)
      else get_item key k tbl)"
  unfolding get_item_def by (induction tbl) auto

lemma get_item_append_new:
  "get_item key k tbl = None \<Longrightarrow>
   get_item key k (tbl @ [item]) = (if key item = k then Some item else None)"
  unfolding get_item_def by (induction tbl) (auto split: if_splits)

lemma get_item_append_other:
  "key item \<noteq> k \<Longrightarrow> get_item key k (tbl @ [item]) = get_item key k tbl"
  unfolding get_item_def by (induction tbl) (auto split: if_splits)

text \<open>Reading a key back after a write.\<close>

lemma get_item_put_item:
  "get_item key k (put_item key item tbl) =
     (if key item = k then Some item else get_item key k tbl)"
proof (cases "list_ex (\<lambda>x. key x = key item) tbl")
  case True
  then show ?thesis
    by (auto simp: put_item_def get_item_map_replace)
next
  case False
  then have "get_item key (key item) tbl = None"
    by (simp add: get_item_None_iff list_ex_iff)
  with False show ?thesis
    by (auto simp: put_item_def get_item_append_new get_item_append_other)
qed

lemma get_canteen_by_id_can_id: "get_canteen_by_id repo cid = Some c \<Longrightarrow> can_id c = cid"
  unfolding get_canteen_by_id_def by (drule get_item_Some_key) simp

lemma find_filter: "find P (filter Q xs) = find (\<lambda>x. Q x \<and> P x) xs"
  by (induction xs) auto

section \<open>The loops of the reservation service\<close>

lemma student_overlap_loop_cases:
  "student_overlap_loop rs a b =
     (if \<exists>r\<in>set rs. status r = ''Active'' \<and>
           overlaps a b (reservation_start r) (reservation_end r)
      then Inl Conflict else Inr ())"
  by (induction rs) (auto simp: Let_def reservation_start_def reservation_end_def)

lemma active_restriction_loop_find:
  "active_restriction_loop rs d = find (\<lambda>r. startDate r \<le> d \<and> d \<le> endDate r) rs"
  by (induction rs) auto

lemma is_open_loop_iff:
  "is_open_loop hs d a b \<longleftrightarrow>
     (\<exists>h\<in>set hs. within a b (combine d (from_time h)) (combine d (to_time h)))"
  by (induction hs) (auto simp: Let_def within_def)

lemma reservations_in_slot_loop_count:
  "reservations_in_slot_loop rs a b n =
     n + int (length (filter (\<lambda>r. overlaps a b (reservation_start r) (reservation_end r)) rs))"
  by (induction rs arbitrary: n)
     (auto simp: Let_def overlaps_def reservation_start_def reservation_end_def)

lemma meal_type_count_loop_count:
  "mt \<noteq> [] \<Longrightarrow> meal_type_count_loop today repo rs mt n =
     n + int (length (filter (\<lambda>r. classify_reservation today repo r = Some mt) rs))"
  by (induction rs arbitrary: n)
     (auto simp: Let_def classify_reservation_def split: option.splits)

section \<open>The checks of \<open>create_reservation\<close>, one by one\<close>

lemma check_capacity_hours:
  "(case active_restriction_loop (get_restrictions_by_canteen_id repo (can_id c)) d of
      Some r \<Rightarrow> rst_workingHours r | None \<Rightarrow> can_workingHours c) = effective_hours repo c d"
  by (simp add: active_restriction_loop_find get_restrictions_by_canteen_id_def find_filter
        effective_hours_def)

lemma check_capacity_cases:
  "check_capacity repo c d t dur =
     (if \<not> (\<exists>h\<in>set (effective_hours repo c d).
               within (combine d t) (combine d t + dur)
                 (combine d (from_time h)) (combine d (to_time h)))
      then Inl Closed
      else if capacity c \<le> int (length (filter
                (\<lambda>r. canteenId r = can_id c \<and> status r = ''Active'' \<and> res_date r = d \<and>
                     overlaps (combine d t) (combine d t + dur)
                       (reservation_start r) (reservation_end r))
                (reservations_table repo)))
      then Inl CapacityExceeded else Inr ())"
proof -
  have eq: "filter (\<lambda>r. overlaps (combine d t) (combine d t + dur)
                         (reservation_start r) (reservation_end r))
              (get_active_reservations_by_canteen_and_date repo (can_id c) d) =
            filter (\<lambda>r. canteenId r = can_id c \<and> status r = ''Active'' \<and> res_date r = d \<and>
                     overlaps (combine d t) (combine d t + dur)
                       (reservation_start r) (reservation_end r))
                (reservations_table repo)"
    by (simp add: get_active_reservations_by_canteen_and_date_def conj_ac cong: conj_cong)
  show ?thesis
    unfolding check_capacity_def Let_def check_capacity_hours is_open_loop_iff
      reservations_in_slot_loop_count eq
    by simp
qed

lemma check_meal_type_limit_cases:
  assumes mt: "mt \<noteq> []"
  shows "check_meal_type_limit today repo sid d mt =
     (if 2 \<le> length (filter
            (\<lambda>r. studentId r = sid \<and> status r = ''Active'' \<and> res_date r = d \<and>
                 classify_reservation today repo r = Some mt)
            (reservations_table repo))
      then Inl QuotaExceeded else Inr ())"
proof -
  have eq: "filter (\<lambda>r. classify_reservation today repo r = Some mt)
              (filter (\<lambda>res. status res = ''Active'' \<and> res_date res = d)
                 (get_reservations_by_student_id repo sid)) =
            filter (\<lambda>r. studentId r = sid \<and> status r = ''Active'' \<and> res_date r = d \<and>
                 classify_reservation today repo r = Some mt)
            (reservations_table repo)"
    by (simp add: get_reservations_by_student_id_def conj_ac cong: conj_cong)
  show ?thesis
    unfolding check_meal_type_limit_def Let_def meal_type_count_loop_count [OF mt] eq
    by simp
qed

lemma check_student_overlap_cases:
  "check_student_overlap repo sid a b =
     (if \<exists>r\<in>set (reservations_table repo). studentId r = sid \<and> status r = ''Active'' \<and>
           overlaps a b (reservation_start r) (reservation_end r)
      then Inl Conflict else Inr ())"
  unfolding check_student_overlap_def student_overlap_loop_cases
    get_reservations_by_student_id_def
  by auto

lemma validate_reservation_payload_cases:
  "validate_reservation_payload today p repo =
     (if dto_date p < today then Inl PastDate
      else if dto_duration p \<noteq> 30 \<and> dto_duration p \<noteq> 60 then Inl BadDuration
      else if minute (dto_time p) \<noteq> 0 \<and> minute (dto_time p) \<noteq> 30 then Inl MisalignedMinute
      else if get_student_by_id repo (dto_studentId p) = None then Inl StudentNotFound
      else case get_canteen_by_id repo (dto_canteenId p) of
             None \<Rightarrow> Inl CanteenNotFound
           | Some c \<Rightarrow> Inr (dto_time p, c))"
  unfolding validate_reservation_payload_def Let_def
  by (auto split: option.splits)

lemma create_reservation_after_validation:
  assumes v: "validate_reservation_payload today p repo = Inr (t, c)"
  shows "create_reservation today nid p repo = after_validation today nid p repo c"
proof -
  have start: "combine (dto_date p) (dto_time p) = requested_start p"
    and "end": "requested_start p + dto_duration p = requested_end p"
    by (simp_all add: requested_start_def requested_end_def)
  from v have c: "get_canteen_by_id repo (dto_canteenId p) = Some c" and t: "t = dto_time p"
    by (auto simp: validate_reservation_payload_cases split: if_splits option.splits)
  have cid: "can_id c = dto_canteenId p"
    using c by (rule get_canteen_by_id_can_id)
  show ?thesis
  proof (cases "get_meal_type today (dto_time p) (can_workingHours c)")
    case None
    then show ?thesis
      unfolding create_reservation_def after_validation_def v t student_conflicts_def
      by (auto simp: check_student_overlap_cases start "end" filter_empty_conv)
  next
    case (Some mt)
    show ?thesis
    proof (cases "mt = []")
      case True
      then show ?thesis
        unfolding create_reservation_def after_validation_def v t student_conflicts_def
        by (auto simp: Some check_student_overlap_cases start "end" filter_empty_conv)
    next
      case False
      then show ?thesis
        unfolding create_reservation_def after_validation_def v t student_conflicts_def
          same_meal_reservations_def overlapping_reservations_def slot_within_def
        by (auto simp: Some check_student_overlap_cases start "end" cid filter_empty_conv
              list_ex_iff check_meal_type_limit_cases check_capacity_cases split: prod.splits)
    qed
  qed
qed

lemma create_reservation_cases:
  "create_reservation today nid p repo =
     (case validate_reservation_payload today p repo of
        Inl e \<Rightarrow> (Inl e, repo)
      | Inr (t, c) \<Rightarrow> after_validation today nid p repo c)"
proof (cases "validate_reservation_payload today p repo")
  case (Inl e)
  then show ?thesis by (simp add: create_reservation_def)
next
  case (Inr tc)
  then show ?thesis
    by (cases tc) (simp add: create_reservation_after_validation)
qed

section \<open>What a request that passes the payload checks goes through\<close>

lemma validate_Inl_payload_errors:
  "validate_reservation_payload today p repo = Inl e \<Longrightarrow> e \<in> payload_errors"
  by (auto simp: validate_reservation_payload_cases payload_errors_def
        split: if_splits option.splits)

lemma validate_Inr_canteen:
  "validate_reservation_payload today p repo = Inr (t, c) \<Longrightarrow>
     get_canteen_by_id repo (dto_canteenId p) = Some c"
  by (auto simp: validate_reservation_payload_cases split: if_splits option.splits)

text \<open>A request that no payload check rejects goes through the remaining checks.\<close>

lemma not_payload_error_after_validation:
  assumes "fst (create_reservation today nid p repo) \<notin> Inl ` payload_errors"
    and "get_canteen_by_id repo (dto_canteenId p) = Some c"
  shows "create_reservation today nid p repo = after_validation today nid p repo c"
proof (cases "validate_reservation_payload today p repo")
  case (Inl e)
  then have "fst (create_reservation today nid p repo) = Inl e" "e \<in> payload_errors"
    by (simp_all add: create_reservation_def validate_Inl_payload_errors)
  with assms(1) show ?thesis by blast
next
  case (Inr tc)
  obtain t c' where tc: "tc = (t, c')" by (cases tc)
  with Inr assms(2) have "c' = c"
    by (auto dest: validate_Inr_canteen)
  with Inr tc show ?thesis
    by (simp add: create_reservation_after_validation)
qed

lemma after_validation_error_store:
  "fst (after_validation today nid p repo c) = Inl e \<Longrightarrow>
     snd (after_validation today nid p repo c) = repo \<and>
     e \<in> {Conflict, NoMealType, QuotaExceeded, Closed, CapacityExceeded}"
  by (auto simp: after_validation_def split: if_splits option.splits)

lemma after_validation_success_store:
  "fst (after_validation today nid p repo c) = Inr res \<Longrightarrow>
     snd (after_validation today nid p repo c) =
       repo\<lparr>reservations_table := put_item res_id res (reservations_table repo)\<rparr> \<and>
     res = \<lparr>res_id = Some nid, studentId = dto_studentId p, canteenId = dto_canteenId p,
            res_date = dto_date p, res_time = dto_time p, duration = dto_duration p,
            status = ''Active''\<rparr>"
  by (auto simp: after_validation_def add_reservation_def Let_def new_Reservation_def
        split: if_splits option.splits)

lemma not_payload_error_canteen:
  assumes "fst (create_reservation today nid p repo) \<notin> Inl ` payload_errors"
  shows "\<exists>c. get_canteen_by_id repo (dto_canteenId p) = Some c"
proof (cases "validate_reservation_payload today p repo")
  case (Inl e)
  then have "fst (create_reservation today nid p repo) = Inl e" "e \<in> payload_errors"
    by (simp_all add: create_reservation_def validate_Inl_payload_errors)
  with assms show ?thesis by blast
next
  case (Inr tc)
  then show ?thesis
    by (cases tc) (auto dest: validate_Inr_canteen)
qed

lemma effective_hours_cases:
  "(\<exists>r\<in>set (restrictions_table repo).
       rst_canteenId r = can_id canteen \<and> startDate r \<le> d \<and> d \<le> endDate r \<and>
       effective_hours repo canteen d = rst_workingHours r) \<or>
   (\<not> (\<exists>r\<in>set (restrictions_table repo).
       rst_canteenId r = can_id canteen \<and> startDate r \<le> d \<and> d \<le> endDate r) \<and>
    effective_hours repo canteen d = can_workingHours canteen)"
proof (cases "find (\<lambda>r. rst_canteenId r = can_id canteen \<and> startDate r \<le> d \<and> d \<le> endDate r)
                (restrictions_table repo)")
  case None
  then have "effective_hours repo canteen d = can_workingHours canteen"
    by (simp add: effective_hours_def)
  moreover from None have "\<not> (\<exists>r\<in>set (restrictions_table repo).
       rst_canteenId r = can_id canteen \<and> startDate r \<le> d \<and> d \<le> endDate r)"
    by (simp add: find_None_iff)
  ultimately show ?thesis by blast
next
  case (Some r)
  then have "effective_hours repo canteen d = rst_workingHours r"
    by (simp add: effective_hours_def)
  moreover from Some have "r \<in> set (restrictions_table repo)"
    "rst_canteenId r = can_id canteen \<and> startDate r \<le> d \<and> d \<le> endDate r"
    by (auto simp: find_Some_iff)
  ultimately show ?thesis by blast
qed

section \<open>Properties of the reservation service and of the store\<close>

text \<open>
  C7: the half-open overlap test of the validator is symmetric, for all interval pairs, and
  every reservation's interval overlaps itself. A reservation's duration is positive: the
  model \<open>Reservation\<close> admits only durations from 30 to 60.
\<close>

theorem overlaps_symmetric_reflexive:
  "overlaps aStart aEnd bStart bEnd = overlaps bStart bEnd aStart aEnd \<and>
   (0 < duration res \<longrightarrow>
      overlaps (reservation_start res) (reservation_end res)
        (reservation_start res) (reservation_end res))"
  by (auto simp: overlaps_def reservation_end_def)

theorem overlaps_symmetric_reflexive_witness:
  "0 < duration (ex_res ''r1'' ''s1'' ex_day 13 0 30 ''Active'') \<and>
   overlaps (reservation_start (ex_res ''r1'' ''s1'' ex_day 13 0 30 ''Active''))
     (reservation_end (ex_res ''r1'' ''s1'' ex_day 13 0 30 ''Active''))
     (reservation_start (ex_res ''r1'' ''s1'' ex_day 13 0 30 ''Active''))
     (reservation_end (ex_res ''r1'' ''s1'' ex_day 13 0 30 ''Active''))"
proof -
  have d: "0 < duration (ex_res ''r1'' ''s1'' ex_day 13 0 30 ''Active'')"
    by (simp add: ex_res_def)
  with overlaps_symmetric_reflexive [of 0 0 0 0 "ex_res ''r1'' ''s1'' ex_day 13 0 30 ''Active''"]
  show ?thesis by blast
qed

text \<open>
  C1: for a request that passes all the checks before the capacity check, the request is
  rejected with \<open>CapacityExceeded\<close> if and only if the Active reservations at the same canteen
  and date whose interval overlaps the requested one number at least \<open>capacity\<close>; with exactly
  \<open>capacity - 1\<close> of them the request succeeds, with exactly \<open>capacity\<close> it fails.
\<close>

theorem capacity_check:
  assumes "fst (create_reservation today new_id payload repo) \<notin> Inl ` errors_before_capacity"
    and "get_canteen_by_id repo (dto_canteenId payload) = Some canteen"
  shows "(fst (create_reservation today new_id payload repo) = Inl CapacityExceeded \<longleftrightarrow>
            int (length (overlapping_reservations repo payload)) \<ge> capacity canteen) \<and>
         (int (length (overlapping_reservations repo payload)) = capacity canteen - 1 \<longrightarrow>
            (\<exists>res. fst (create_reservation today new_id payload repo) = Inr res \<and>
                   status res = ''Active'')) \<and>
         (int (length (overlapping_reservations repo payload)) = capacity canteen \<longrightarrow>
            fst (create_reservation today new_id payload repo) = Inl CapacityExceeded)"
proof -
  from assms(1) have "fst (create_reservation today new_id payload repo) \<notin> Inl ` payload_errors"
    by (auto simp: errors_before_capacity_def errors_before_closed_def errors_before_quota_def)
  then have eq: "create_reservation today new_id payload repo =
      after_validation today new_id payload repo canteen"
    using assms(2) by (rule not_payload_error_after_validation)
  from assms(1) have nb: "fst (after_validation today new_id payload repo canteen) \<noteq> Inl Conflict"
    "fst (after_validation today new_id payload repo canteen) \<noteq> Inl NoMealType"
    "fst (after_validation today new_id payload repo canteen) \<noteq> Inl QuotaExceeded"
    "fst (after_validation today new_id payload repo canteen) \<noteq> Inl Closed"
    unfolding eq
    by (auto simp: errors_before_capacity_def errors_before_closed_def errors_before_quota_def)
  then have tail: "after_validation today new_id payload repo canteen =
     (if capacity canteen \<le> int (length (overlapping_reservations repo payload))
               then (Inl CapacityExceeded, repo)
               else (Inr (fst (add_reservation new_id (new_Reservation (dto_studentId payload)
                             (dto_canteenId payload) (dto_date payload) (dto_time payload) (dto_duration payload)) repo)),
                     snd (add_reservation new_id (new_Reservation (dto_studentId payload)
                             (dto_canteenId payload) (dto_date payload) (dto_time payload) (dto_duration payload)) repo)))"
    by (auto simp: after_validation_def split: if_splits option.splits)
  show ?thesis
    unfolding eq tail
    by (auto simp: add_reservation_def new_Reservation_def Let_def)
qed


theorem capacity_check_witness:
  "fst (create_reservation ex_today ''n1'' (ex_request ''s2'' 12 0 30) ex_lunch_one)
     \<notin> Inl ` errors_before_capacity \<and>
   get_canteen_by_id ex_lunch_one (dto_canteenId (ex_request ''s2'' 12 0 30)) = Some ex_canteen \<and>
   int (length (overlapping_reservations ex_lunch_one (ex_request ''s2'' 12 0 30))) =
     capacity ex_canteen - 1 \<and>
   (\<exists>res. fst (create_reservation ex_today ''n1'' (ex_request ''s2'' 12 0 30) ex_lunch_one) =
            Inr res \<and> status res = ''Active'') \<and>
   fst (create_reservation ex_today ''n1'' (ex_request ''s3'' 12 0 30) ex_lunch_full)
     \<notin> Inl ` errors_before_capacity \<and>
   get_canteen_by_id ex_lunch_full (dto_canteenId (ex_request ''s3'' 12 0 30)) = Some ex_canteen \<and>
   int (length (overlapping_reservations ex_lunch_full (ex_request ''s3'' 12 0 30))) =
     capacity ex_canteen \<and>
   fst (create_reservation ex_today ''n1'' (ex_request ''s3'' 12 0 30) ex_lunch_full) =
     Inl CapacityExceeded"
proof -
  have a1: "fst (create_reservation ex_today ''n1'' (ex_request ''s2'' 12 0 30) ex_lunch_one)
     \<notin> Inl ` errors_before_capacity"
    by code_simp
  have a2: "get_canteen_by_id ex_lunch_one (dto_canteenId (ex_request ''s2'' 12 0 30)) =
     Some ex_canteen"
    by code_simp
  have a3: "int (length (overlapping_reservations ex_lunch_one (ex_request ''s2'' 12 0 30))) =
     capacity ex_canteen - 1"
    by code_simp
  have b1: "fst (create_reservation ex_today ''n1'' (ex_request ''s3'' 12 0 30) ex_lunch_full)
     \<notin> Inl ` errors_before_capacity"
    by code_simp
  have b2: "get_canteen_by_id ex_lunch_full (dto_canteenId (ex_request ''s3'' 12 0 30)) =
     Some ex_canteen"
    by code_simp
  have b3: "int (length (overlapping_reservations ex_lunch_full (ex_request ''s3'' 12 0 30))) =
     capacity ex_canteen"
    by code_simp
  from capacity_check [OF a1 a2] a3
  have a: "\<exists>res. fst (create_reservation ex_today ''n1'' (ex_request ''s2'' 12 0 30) ex_lunch_one) =
            Inr res \<and> status res = ''Active''"
    by blast
  from capacity_check [OF b1 b2] b3
  have b: "fst (create_reservation ex_today ''n1'' (ex_request ''s3'' 12 0 30) ex_lunch_full) =
     Inl CapacityExceeded"
    by blast
  from a1 a2 a3 a b1 b2 b3 b show ?thesis by blast
qed

text \<open>
  C8: a call of \<open>create_reservation\<close> that fails, with whichever of the ten validation
  errors, leaves the store as it was; a call that succeeds differs from the store before by
  the one write of the reservation it returns.
\<close>

theorem failed_create_leaves_store:
  "(\<forall>e. fst (create_reservation today new_id payload repo) = Inl e \<longrightarrow>
        snd (create_reservation today new_id payload repo) = repo \<and>
        e \<in> {PastDate, BadDuration, MisalignedMinute, StudentNotFound, CanteenNotFound,
             Conflict, NoMealType, QuotaExceeded, Closed, CapacityExceeded}) \<and>
   (\<forall>res. fst (create_reservation today new_id payload repo) = Inr res \<longrightarrow>
        snd (create_reservation today new_id payload repo) =
          repo\<lparr>reservations_table := put_item res_id res (reservations_table repo)\<rparr>)"
proof (cases "validate_reservation_payload today payload repo")
  case (Inl e)
  then show ?thesis
    using validate_Inl_payload_errors [OF Inl]
    by (auto simp: create_reservation_def payload_errors_def)
next
  case (Inr tc)
  obtain t c where "tc = (t, c)" by (cases tc)
  with Inr have eq: "create_reservation today new_id payload repo =
      after_validation today new_id payload repo c"
    by (simp add: create_reservation_after_validation)
  show ?thesis
    unfolding eq
    using after_validation_error_store [of today new_id payload repo c]
      after_validation_success_store [of today new_id payload repo c]
    by auto
qed

theorem failed_create_leaves_store_witness:
  "fst (create_reservation ex_today ''n1'' (ex_request ''s3'' 12 0 30) ex_lunch_full) =
     Inl CapacityExceeded \<and>
   snd (create_reservation ex_today ''n1'' (ex_request ''s3'' 12 0 30) ex_lunch_full) =
     ex_lunch_full"
proof -
  have "fst (create_reservation ex_today ''n1'' (ex_request ''s3'' 12 0 30) ex_lunch_full) =
     Inl CapacityExceeded"
    by code_simp
  with failed_create_leaves_store [of ex_today "''n1''" "ex_request ''s3'' 12 0 30" ex_lunch_full]
  show ?thesis by blast
qed

text \<open>
  C10: the repository's \<open>cancel_reservation\<close> changes only the status of a stored
  reservation, to \<open>Cancelled\<close>: the reservation returned, which is also the one read back
  from the store afterwards, has the id, student, canteen, date, time and duration it had.
\<close>

theorem repo_cancel_changes_status_only:
  assumes "get_reservation_by_id repo reservation_id = Some res"
  shows "\<exists>res'. fst (repo_cancel_reservation repo reservation_id) = Some res' \<and>
           get_reservation_by_id (snd (repo_cancel_reservation repo reservation_id))
             reservation_id = Some res' \<and>
           res' = res\<lparr>status := ''Cancelled''\<rparr> \<and>
           res_id res' = res_id res \<and> studentId res' = studentId res \<and>
           canteenId res' = canteenId res \<and> res_date res' = res_date res \<and>
           res_time res' = res_time res \<and> duration res' = duration res \<and>
           status res' = ''Cancelled''"
proof -
  from assms have "res_id res = Some reservation_id"
    unfolding get_reservation_by_id_def by (auto dest: get_item_Some_key)
  with assms show ?thesis
    by (simp add: repo_cancel_reservation_def Let_def get_reservation_by_id_def
          get_item_put_item)
qed

theorem repo_cancel_changes_status_only_witness:
  "get_reservation_by_id ex_one_pm ''r1'' = Some (ex_res ''r1'' ''s1'' ex_day 13 0 30 ''Active'') \<and>
   fst (repo_cancel_reservation ex_one_pm ''r1'') =
     Some (ex_res ''r1'' ''s1'' ex_day 13 0 30 ''Cancelled'') \<and>
   get_reservation_by_id (snd (repo_cancel_reservation ex_one_pm ''r1'')) ''r1'' =
     Some (ex_res ''r1'' ''s1'' ex_day 13 0 30 ''Cancelled'')"
proof -
  have h: "get_reservation_by_id ex_one_pm ''r1'' =
      Some (ex_res ''r1'' ''s1'' ex_day 13 0 30 ''Active'')"
    by code_simp
  have e: "(ex_res ''r1'' ''s1'' ex_day 13 0 30 ''Active'')\<lparr>status := ''Cancelled''\<rparr> =
      ex_res ''r1'' ''s1'' ex_day 13 0 30 ''Cancelled''"
    by (simp add: ex_res_def)
  from repo_cancel_changes_status_only [OF h] h e show ?thesis
    by auto
qed

text \<open>
  C5: \<open>cancel_reservation\<close> fails with NotFound when no reservation has the id; otherwise
  with Forbidden when the reservation is another student's; otherwise with AlreadyCancelled
  when its status is \<open>Cancelled\<close>; otherwise it sets the status to \<open>Cancelled\<close>, persists and
  returns the updated reservation. A failing call leaves the store as it was.
\<close>

theorem cancel_reservation_contract:
  "(get_reservation_by_id repo reservation_id = None \<longrightarrow>
      cancel_reservation reservation_id student_id repo = (Inl ReservationNotFound, repo)) \<and>
   (\<forall>res. get_reservation_by_id repo reservation_id = Some res \<longrightarrow>
      (studentId res \<noteq> student_id \<longrightarrow>
         cancel_reservation reservation_id student_id repo = (Inl Forbidden, repo)) \<and>
      (studentId res = student_id \<and> status res = ''Cancelled'' \<longrightarrow>
         cancel_reservation reservation_id student_id repo = (Inl AlreadyCancelled, repo)) \<and>
      (studentId res = student_id \<and> status res \<noteq> ''Cancelled'' \<longrightarrow>
         fst (cancel_reservation reservation_id student_id repo) =
           Inr (Some (res\<lparr>status := ''Cancelled''\<rparr>)) \<and>
         get_reservation_by_id (snd (cancel_reservation reservation_id student_id repo))
           reservation_id = Some (res\<lparr>status := ''Cancelled''\<rparr>)))"
proof -
  have "res_id res = Some reservation_id"
    if "get_reservation_by_id repo reservation_id = Some res" for res
    using that unfolding get_reservation_by_id_def by (auto dest: get_item_Some_key)
  then show ?thesis
    by (auto simp: cancel_reservation_def repo_cancel_reservation_def Let_def
          get_reservation_by_id_def get_item_put_item)
qed

theorem cancel_reservation_contract_witness:
  "get_reservation_by_id ex_one_pm ''r9'' = None \<and>
   cancel_reservation ''r9'' ''s1'' ex_one_pm = (Inl ReservationNotFound, ex_one_pm) \<and>
   get_reservation_by_id ex_one_pm ''r1'' = Some (ex_res ''r1'' ''s1'' ex_day 13 0 30 ''Active'') \<and>
   cancel_reservation ''r1'' ''s2'' ex_one_pm = (Inl Forbidden, ex_one_pm) \<and>
   fst (cancel_reservation ''r1'' ''s1'' ex_one_pm) =
     Inr (Some (ex_res ''r1'' ''s1'' ex_day 13 0 30 ''Cancelled'')) \<and>
   get_reservation_by_id (snd (cancel_reservation ''r1'' ''s1'' ex_one_pm)) ''r1'' =
     Some (ex_res ''r1'' ''s1'' ex_day 13 0 30 ''Cancelled'') \<and>
   cancel_reservation ''r1'' ''s1'' (snd (cancel_reservation ''r1'' ''s1'' ex_one_pm)) =
     (Inl AlreadyCancelled, snd (cancel_reservation ''r1'' ''s1'' ex_one_pm))"
proof -
  let ?r = "ex_res ''r1'' ''s1'' ex_day 13 0 30 ''Active''"
  let ?c = "ex_res ''r1'' ''s1'' ex_day 13 0 30 ''Cancelled''"
  let ?s = "snd (cancel_reservation ''r1'' ''s1'' ex_one_pm)"
  have none: "get_reservation_by_id ex_one_pm ''r9'' = None"
    by code_simp
  have some: "get_reservation_by_id ex_one_pm ''r1'' = Some ?r"
    by code_simp
  have fields: "studentId ?r \<noteq> ''s2''" "studentId ?r = ''s1''" "status ?r \<noteq> ''Cancelled''"
    "?r\<lparr>status := ''Cancelled''\<rparr> = ?c" "studentId ?c = ''s1''" "status ?c = ''Cancelled''"
    by (simp_all add: ex_res_def)
  note found = cancel_reservation_contract [THEN conjunct2, THEN spec, THEN mp]
  from cancel_reservation_contract [of ex_one_pm "''r9''" "''s1''", THEN conjunct1] none
  have a: "cancel_reservation ''r9'' ''s1'' ex_one_pm = (Inl ReservationNotFound, ex_one_pm)"
    by (rule mp)
  from found [OF some, of "''s2''", THEN conjunct1] fields(1)
  have b: "cancel_reservation ''r1'' ''s2'' ex_one_pm = (Inl Forbidden, ex_one_pm)"
    by (rule mp)
  from fields(2,3) have "studentId ?r = ''s1'' \<and> status ?r \<noteq> ''Cancelled''"
    by (rule conjI)
  with found [OF some, of "''s1''", THEN conjunct2, THEN conjunct2]
  have "fst (cancel_reservation ''r1'' ''s1'' ex_one_pm) =
          Inr (Some (?r\<lparr>status := ''Cancelled''\<rparr>)) \<and>
        get_reservation_by_id ?s ''r1'' = Some (?r\<lparr>status := ''Cancelled''\<rparr>)"
    by (rule mp)
  then have c: "fst (cancel_reservation ''r1'' ''s1'' ex_one_pm) = Inr (Some ?c)"
    "get_reservation_by_id ?s ''r1'' = Some ?c"
    by (simp_all only: fields(4))
  from fields(5,6) have "studentId ?c = ''s1'' \<and> status ?c = ''Cancelled''"
    by (rule conjI)
  with found [OF c(2), of "''s1''", THEN conjunct2, THEN conjunct1]
  have d: "cancel_reservation ''r1'' ''s1'' ?s = (Inl AlreadyCancelled, ?s)"
    by (rule mp)
  show ?thesis
    by (intro conjI none some a b c d)
qed

section \<open>The checks in their order\<close>

text \<open>
  C3: for a request that passes the payload checks (date not in the past, duration 30 or
  60, minute 0 or 30, student and canteen found), the request is rejected with \<open>Conflict\<close>
  if and only if the requested interval, on absolute instants and half-open, overlaps an
  Active reservation of the same student, on any canteen. A reservation that ends exactly
  when the request starts, or starts exactly when it ends, does not overlap it.
\<close>

theorem student_overlap_check:
  assumes "fst (create_reservation today new_id payload repo) \<notin> Inl ` payload_errors"
  shows "(fst (create_reservation today new_id payload repo) = Inl Conflict \<longleftrightarrow>
            (\<exists>r\<in>set (reservations_table repo).
                studentId r = dto_studentId payload \<and> status r = ''Active'' \<and>
                overlaps (requested_start payload) (requested_end payload)
                  (reservation_start r) (reservation_end r))) \<and>
         (\<forall>r. reservation_end r = requested_start payload \<or>
              requested_end payload = reservation_start r \<longrightarrow>
              \<not> overlaps (requested_start payload) (requested_end payload)
                  (reservation_start r) (reservation_end r))"
proof -
  from assms obtain c where c: "get_canteen_by_id repo (dto_canteenId payload) = Some c"
    by (auto dest: not_payload_error_canteen)
  with assms have eq: "create_reservation today new_id payload repo =
      after_validation today new_id payload repo c"
    by (rule not_payload_error_after_validation)
  have "fst (after_validation today new_id payload repo c) = Inl Conflict \<longleftrightarrow>
      student_conflicts repo payload \<noteq> []"
    by (auto simp: after_validation_def split: option.splits)
  then show ?thesis
    unfolding eq by (auto simp: student_conflicts_def filter_empty_conv overlaps_def)
qed

theorem student_overlap_check_witness:
  "create_reservation ex_today ''r1'' (ex_request ''s1'' 13 0 30) ex_empty =
     (Inr (ex_res ''r1'' ''s1'' ex_day 13 0 30 ''Active''), ex_one_pm) \<and>
   fst (create_reservation ex_today ''n1'' (ex_request ''s1'' 13 0 60) ex_one_pm)
     \<notin> Inl ` payload_errors \<and>
   fst (create_reservation ex_today ''n1'' (ex_request ''s1'' 13 0 60) ex_one_pm) = Inl Conflict \<and>
   fst (create_reservation ex_today ''n1'' (ex_request ''s1'' 13 30 30) ex_one_pm)
     \<notin> Inl ` payload_errors \<and>
   reservation_end (ex_res ''r1'' ''s1'' ex_day 13 0 30 ''Active'') =
     requested_start (ex_request ''s1'' 13 30 30) \<and>
   \<not> overlaps (requested_start (ex_request ''s1'' 13 30 30))
       (requested_end (ex_request ''s1'' 13 30 30))
       (reservation_start (ex_res ''r1'' ''s1'' ex_day 13 0 30 ''Active''))
       (reservation_end (ex_res ''r1'' ''s1'' ex_day 13 0 30 ''Active'')) \<and>
   fst (create_reservation ex_today ''n1'' (ex_request ''s1'' 13 30 30) ex_one_pm) \<noteq> Inl Conflict \<and>
   fst (create_reservation ex_today ''n1'' (ex_request ''s1'' 13 30 30) ex_one_pm) =
     Inr (ex_res ''n1'' ''s1'' ex_day 13 30 30 ''Active'')"
proof -
  let ?r = "ex_res ''r1'' ''s1'' ex_day 13 0 30 ''Active''"
  let ?p = "ex_request ''s1'' 13 0 60" and ?q = "ex_request ''s1'' 13 30 30"
  have first: "create_reservation ex_today ''r1'' (ex_request ''s1'' 13 0 30) ex_empty =
     (Inr ?r, ex_one_pm)"
    by code_simp
  have a1: "fst (create_reservation ex_today ''n1'' ?p ex_one_pm) \<notin> Inl ` payload_errors"
    by code_simp
  have a2: "\<exists>r\<in>set (reservations_table ex_one_pm).
                studentId r = dto_studentId ?p \<and> status r = ''Active'' \<and>
                overlaps (requested_start ?p) (requested_end ?p)
                  (reservation_start r) (reservation_end r)"
    by code_simp
  from student_overlap_check [OF a1, THEN conjunct1] a2
  have a: "fst (create_reservation ex_today ''n1'' ?p ex_one_pm) = Inl Conflict"
    by (rule iffD2)
  have b1: "fst (create_reservation ex_today ''n1'' ?q ex_one_pm) \<notin> Inl ` payload_errors"
    by code_simp
  have b2: "reservation_end ?r = requested_start ?q"
    by code_simp
  then have b2': "reservation_end ?r = requested_start ?q \<or> requested_end ?q = reservation_start ?r"
    by (rule disjI1)
  from student_overlap_check [OF b1, THEN conjunct2, THEN spec, of ?r] b2'
  have b3: "\<not> overlaps (requested_start ?q) (requested_end ?q)
       (reservation_start ?r) (reservation_end ?r)"
    by (rule mp)
  have b4: "\<not> (\<exists>r\<in>set (reservations_table ex_one_pm).
                studentId r = dto_studentId ?q \<and> status r = ''Active'' \<and>
                overlaps (requested_start ?q) (requested_end ?q)
                  (reservation_start r) (reservation_end r))"
    by code_simp
  with student_overlap_check [OF b1, THEN conjunct1]
  have b5: "fst (create_reservation ex_today ''n1'' ?q ex_one_pm) \<noteq> Inl Conflict"
    by simp
  have b6: "fst (create_reservation ex_today ''n1'' ?q ex_one_pm) =
     Inr (ex_res ''n1'' ''s1'' ex_day 13 30 30 ''Active'')"
    by code_simp
  show ?thesis
    by (intro conjI first a1 a b1 b2 b3 b5 b6)
qed

text \<open>
  Without the proviso the equivalence fails: a request for a past date that overlaps an
  Active reservation of the student is rejected for its date, not with \<open>Conflict\<close>.
\<close>

theorem student_overlap_counterexample:
  "fst (create_reservation (ex_day + 1) ''n1'' (ex_request ''s1'' 13 0 30) ex_one_pm) =
     Inl PastDate \<and>
   ex_res ''r1'' ''s1'' ex_day 13 0 30 ''Active'' \<in> set (reservations_table ex_one_pm) \<and>
   studentId (ex_res ''r1'' ''s1'' ex_day 13 0 30 ''Active'') =
     dto_studentId (ex_request ''s1'' 13 0 30) \<and>
   status (ex_res ''r1'' ''s1'' ex_day 13 0 30 ''Active'') = ''Active'' \<and>
   overlaps (requested_start (ex_request ''s1'' 13 0 30)) (requested_end (ex_request ''s1'' 13 0 30))
     (reservation_start (ex_res ''r1'' ''s1'' ex_day 13 0 30 ''Active''))
     (reservation_end (ex_res ''r1'' ''s1'' ex_day 13 0 30 ''Active''))"
  by code_simp

text \<open>
  C4: for a request that passes the checks before the quota check (the payload checks, the
  student-overlap check and the classification of the requested time to a meal type), the
  request is rejected with \<open>QuotaExceeded\<close> if and only if the student holds at least 2 Active
  reservations on the requested date whose classification, each against the nominal hours
  of its own canteen, is the meal type of the request.
\<close>

theorem meal_quota_check:
  assumes "fst (create_reservation today new_id payload repo) \<notin> Inl ` errors_before_quota"
    and "get_canteen_by_id repo (dto_canteenId payload) = Some canteen"
  shows "\<exists>mt. get_meal_type today (dto_time payload) (can_workingHours canteen) = Some mt \<and>
           (fst (create_reservation today new_id payload repo) = Inl QuotaExceeded \<longleftrightarrow>
              2 \<le> length (filter
                     (\<lambda>r. studentId r = dto_studentId payload \<and> status r = ''Active'' \<and>
                          res_date r = dto_date payload \<and>
                          classify_reservation today repo r = Some mt)
                     (reservations_table repo)))"
proof -
  from assms(1) have "fst (create_reservation today new_id payload repo) \<notin> Inl ` payload_errors"
    by (auto simp: errors_before_quota_def)
  then have eq: "create_reservation today new_id payload repo =
      after_validation today new_id payload repo canteen"
    using assms(2) by (rule not_payload_error_after_validation)
  from assms(1) have nb: "fst (after_validation today new_id payload repo canteen) \<noteq> Inl Conflict"
    "fst (after_validation today new_id payload repo canteen) \<noteq> Inl NoMealType"
    unfolding eq by (auto simp: errors_before_quota_def)
  then obtain mt where mt: "get_meal_type today (dto_time payload) (can_workingHours canteen) = Some mt"
    "mt \<noteq> []" "student_conflicts repo payload = []"
    by (auto simp: after_validation_def split: if_splits option.splits)
  then have "fst (after_validation today new_id payload repo canteen) = Inl QuotaExceeded \<longleftrightarrow>
      2 \<le> length (same_meal_reservations today repo payload mt)"
    by (simp add: after_validation_def)
  with mt(1) show ?thesis
    unfolding eq same_meal_reservations_def by blast
qed

theorem meal_quota_check_witness:
  "create_reservation ex_today ''r2'' (ex_request ''s1'' 8 30 30) ex_breakfast_one =
     (Inr (ex_res ''r2'' ''s1'' ex_day 8 30 30 ''Active''), ex_breakfast_two) \<and>
   fst (create_reservation ex_today ''n1'' (ex_request ''s1'' 9 0 30) ex_breakfast_two)
     \<notin> Inl ` errors_before_quota \<and>
   get_canteen_by_id ex_breakfast_two (dto_canteenId (ex_request ''s1'' 9 0 30)) =
     Some ex_canteen \<and>
   get_meal_type ex_today (dto_time (ex_request ''s1'' 9 0 30)) (can_workingHours ex_canteen) =
     Some ''breakfast'' \<and>
   fst (create_reservation ex_today ''n1'' (ex_request ''s1'' 9 0 30) ex_breakfast_two) =
     Inl QuotaExceeded"
proof -
  let ?p = "ex_request ''s1'' 9 0 30"
  have second: "create_reservation ex_today ''r2'' (ex_request ''s1'' 8 30 30) ex_breakfast_one =
     (Inr (ex_res ''r2'' ''s1'' ex_day 8 30 30 ''Active''), ex_breakfast_two)"
    by code_simp
  have h1: "fst (create_reservation ex_today ''n1'' ?p ex_breakfast_two)
     \<notin> Inl ` errors_before_quota"
    by code_simp
  have h2: "get_canteen_by_id ex_breakfast_two (dto_canteenId ?p) = Some ex_canteen"
    by code_simp
  have mt: "get_meal_type ex_today (dto_time ?p) (can_workingHours ex_canteen) = Some ''breakfast''"
    by code_simp
  have n: "2 \<le> length (filter
                     (\<lambda>r. studentId r = dto_studentId ?p \<and> status r = ''Active'' \<and>
                          res_date r = dto_date ?p \<and>
                          classify_reservation ex_today ex_breakfast_two r = Some ''breakfast'')
                     (reservations_table ex_breakfast_two))"
    by code_simp
  from meal_quota_check [OF h1 h2] mt n
  have q: "fst (create_reservation ex_today ''n1'' ?p ex_breakfast_two) = Inl QuotaExceeded"
    by auto
  show ?thesis
    by (intro conjI second h1 h2 mt q)
qed

text \<open>
  Without the proviso the equivalence fails: a student with two Active breakfast
  reservations who asks for a slot that overlaps one of them is rejected with \<open>Conflict\<close>.
\<close>

theorem meal_quota_counterexample:
  "fst (create_reservation ex_today ''n1'' (ex_request ''s1'' 8 30 30) ex_breakfast_two) =
     Inl Conflict \<and>
   get_meal_type ex_today (dto_time (ex_request ''s1'' 8 30 30)) (can_workingHours ex_canteen) =
     Some ''breakfast'' \<and>
   same_meal_reservations ex_today ex_breakfast_two (ex_request ''s1'' 8 30 30) ''breakfast'' =
     [ex_res ''r1'' ''s1'' ex_day 8 0 30 ''Active'', ex_res ''r2'' ''s1'' ex_day 8 30 30 ''Active'']"
  by code_simp

text \<open>
  C2: the effective hours of a canteen on a date are the working hours of a restriction
  of the canteen whose inclusive range covers the date, if there is one, and the nominal
  hours otherwise; for a request that passes the checks before the effective-hours check
  (payload, student overlap, meal type, quota), the request is rejected with \<open>Closed\<close> if
  and only if no effective window contains the requested slot, start and end included.
\<close>

theorem effective_hours_check:
  assumes "fst (create_reservation today new_id payload repo) \<notin> Inl ` errors_before_closed"
    and "get_canteen_by_id repo (dto_canteenId payload) = Some canteen"
  shows "((\<exists>r\<in>set (restrictions_table repo).
             rst_canteenId r = dto_canteenId payload \<and>
             startDate r \<le> dto_date payload \<and> dto_date payload \<le> endDate r \<and>
             effective_hours repo canteen (dto_date payload) = rst_workingHours r) \<or>
          (\<not> (\<exists>r\<in>set (restrictions_table repo).
             rst_canteenId r = dto_canteenId payload \<and>
             startDate r \<le> dto_date payload \<and> dto_date payload \<le> endDate r) \<and>
           effective_hours repo canteen (dto_date payload) = can_workingHours canteen)) \<and>
         (fst (create_reservation today new_id payload repo) = Inl Closed \<longleftrightarrow>
            \<not> (\<exists>h\<in>set (effective_hours repo canteen (dto_date payload)).
                  combine (dto_date payload) (from_time h) \<le> requested_start payload \<and>
                  requested_end payload \<le> combine (dto_date payload) (to_time h)))"
proof -
  have cid: "can_id canteen = dto_canteenId payload"
    using assms(2) by (rule get_canteen_by_id_can_id)
  from assms(1) have "fst (create_reservation today new_id payload repo) \<notin> Inl ` payload_errors"
    by (auto simp: errors_before_closed_def errors_before_quota_def)
  then have eq: "create_reservation today new_id payload repo =
      after_validation today new_id payload repo canteen"
    using assms(2) by (rule not_payload_error_after_validation)
  from assms(1) have nb: "fst (after_validation today new_id payload repo canteen) \<noteq> Inl Conflict"
    "fst (after_validation today new_id payload repo canteen) \<noteq> Inl NoMealType"
    "fst (after_validation today new_id payload repo canteen) \<noteq> Inl QuotaExceeded"
    unfolding eq by (auto simp: errors_before_closed_def errors_before_quota_def)
  then have "fst (after_validation today new_id payload repo canteen) = Inl Closed \<longleftrightarrow>
      \<not> list_ex (slot_within payload) (effective_hours repo canteen (dto_date payload))"
    by (auto simp: after_validation_def split: if_splits option.splits)
  then have closed: "fst (create_reservation today new_id payload repo) = Inl Closed \<longleftrightarrow>
            \<not> (\<exists>h\<in>set (effective_hours repo canteen (dto_date payload)).
                  combine (dto_date payload) (from_time h) \<le> requested_start payload \<and>
                  requested_end payload \<le> combine (dto_date payload) (to_time h))"
    unfolding eq by (simp add: list_ex_iff slot_within_def within_def)
  from effective_hours_cases [of repo canteen "dto_date payload"] closed
  show ?thesis
    unfolding cid by blast
qed

theorem effective_hours_check_witness:
  "fst (create_reservation ex_today ''n1'' (ex_request ''s1'' 9 0 30) ex_restricted)
     \<notin> Inl ` errors_before_closed \<and>
   get_canteen_by_id ex_restricted (dto_canteenId (ex_request ''s1'' 9 0 30)) = Some ex_canteen \<and>
   effective_hours ex_restricted ex_canteen (dto_date (ex_request ''s1'' 9 0 30)) =
     [ex_short_breakfast] \<and>
   fst (create_reservation ex_today ''n1'' (ex_request ''s1'' 9 0 30) ex_restricted) = Inl Closed \<and>
   fst (create_reservation ex_today ''n1'' (ex_request ''s1'' 9 0 30) ex_empty) =
     Inr (ex_res ''n1'' ''s1'' ex_day 9 0 30 ''Active'') \<and>
   fst (create_reservation ex_today ''n1'' (ex_request ''s1'' 8 30 30) ex_restricted)
     \<notin> Inl ` errors_before_closed \<and>
   fst (create_reservation ex_today ''n1'' (ex_request ''s1'' 8 30 30) ex_restricted) \<noteq> Inl Closed \<and>
   fst (create_reservation ex_today ''n1'' (ex_request ''s1'' 9 30 60) ex_empty)
     \<notin> Inl ` errors_before_closed \<and>
   effective_hours ex_empty ex_canteen (dto_date (ex_request ''s1'' 9 30 60)) =
     [ex_breakfast, ex_lunch] \<and>
   fst (create_reservation ex_today ''n1'' (ex_request ''s1'' 9 30 60) ex_empty) = Inl Closed"
proof -
  let ?p = "ex_request ''s1'' 9 0 30" and ?q = "ex_request ''s1'' 8 30 30"
    and ?o = "ex_request ''s1'' 9 30 60"
  have a1: "fst (create_reservation ex_today ''n1'' ?p ex_restricted)
     \<notin> Inl ` errors_before_closed"
    by code_simp
  have a2: "get_canteen_by_id ex_restricted (dto_canteenId ?p) = Some ex_canteen"
    by code_simp
  have a3: "effective_hours ex_restricted ex_canteen (dto_date ?p) = [ex_short_breakfast]"
    by code_simp
  have a4: "\<not> (\<exists>h\<in>set (effective_hours ex_restricted ex_canteen (dto_date ?p)).
                  combine (dto_date ?p) (from_time h) \<le> requested_start ?p \<and>
                  requested_end ?p \<le> combine (dto_date ?p) (to_time h))"
    by code_simp
  from effective_hours_check [OF a1 a2, THEN conjunct2] a4
  have a: "fst (create_reservation ex_today ''n1'' ?p ex_restricted) = Inl Closed"
    by (rule iffD2)
  have a5: "fst (create_reservation ex_today ''n1'' ?p ex_empty) =
     Inr (ex_res ''n1'' ''s1'' ex_day 9 0 30 ''Active'')"
    by code_simp
  have b1: "fst (create_reservation ex_today ''n1'' ?q ex_restricted)
     \<notin> Inl ` errors_before_closed"
    by code_simp
  have b2: "get_canteen_by_id ex_restricted (dto_canteenId ?q) = Some ex_canteen"
    by code_simp
  have b4: "\<exists>h\<in>set (effective_hours ex_restricted ex_canteen (dto_date ?q)).
                  combine (dto_date ?q) (from_time h) \<le> requested_start ?q \<and>
                  requested_end ?q \<le> combine (dto_date ?q) (to_time h)"
    by code_simp
  with effective_hours_check [OF b1 b2, THEN conjunct2]
  have b: "fst (create_reservation ex_today ''n1'' ?q ex_restricted) \<noteq> Inl Closed"
    by simp
  have c1: "fst (create_reservation ex_today ''n1'' ?o ex_empty)
     \<notin> Inl ` errors_before_closed"
    by code_simp
  have c2: "get_canteen_by_id ex_empty (dto_canteenId ?o) = Some ex_canteen"
    by code_simp
  have c3: "effective_hours ex_empty ex_canteen (dto_date ?o) = [ex_breakfast, ex_lunch]"
    by code_simp
  have c4: "\<not> (\<exists>h\<in>set (effective_hours ex_empty ex_canteen (dto_date ?o)).
                  combine (dto_date ?o) (from_time h) \<le> requested_start ?o \<and>
                  requested_end ?o \<le> combine (dto_date ?o) (to_time h))"
    by code_simp
  from effective_hours_check [OF c1 c2, THEN conjunct2] c4
  have c: "fst (create_reservation ex_today ''n1'' ?o ex_empty) = Inl Closed"
    by (rule iffD2)
  show ?thesis
    by (intro conjI a1 a2 a3 a a5 b1 b c1 c3 c)
qed

text \<open>
  Without the proviso the equivalence fails: a request at 20:00, in no window at all, is
  rejected because its time has no meal type, before the effective hours are looked at.
\<close>

theorem effective_hours_counterexample:
  "fst (create_reservation ex_today ''n1'' (ex_request ''s1'' 20 0 30) ex_empty) =
     Inl NoMealType \<and>
   restrictions_table ex_empty = [] \<and>
   effective_hours ex_empty ex_canteen (dto_date (ex_request ''s1'' 20 0 30)) =
     [ex_breakfast, ex_lunch] \<and>
   \<not> slot_within (ex_request ''s1'' 20 0 30) ex_breakfast \<and>
   \<not> slot_within (ex_request ''s1'' 20 0 30) ex_lunch"
  by code_simp

section \<open>Cancelling by id\<close>

lemma get_reservation_by_id_res_id:
  "get_reservation_by_id repo rid = Some r \<Longrightarrow> res_id r = Some rid \<and> r \<in> set (reservations_table repo)"
  unfolding get_reservation_by_id_def by (rule get_item_Some_key)

text \<open>A cancelled reservation is read back as it is after any cancellation by id.\<close>

lemma repo_cancel_keeps_cancelled:
  assumes "get_reservation_by_id repo rid = Some r" and "status r = ''Cancelled''"
  shows "get_reservation_by_id (snd (repo_cancel_reservation repo rid')) rid = Some r"
proof (cases "get_reservation_by_id repo rid'")
  case None
  with assms show ?thesis by (simp add: repo_cancel_reservation_def)
next
  case (Some r0)
  then have id0: "res_id r0 = Some rid'"
    by (auto dest: get_reservation_by_id_res_id)
  show ?thesis
  proof (cases "rid' = rid")
    case True
    with Some assms(1) have eq: "r0 = r" by simp
    from assms(2) have same: "r\<lparr>status := ''Cancelled''\<rparr> = r" by simp
    from id0 eq True have "res_id r = Some rid" by simp
    with Some True show ?thesis
      unfolding eq
      by (simp add: repo_cancel_reservation_def Let_def same get_reservation_by_id_def
            get_item_put_item)
  next
    case False
    with Some id0 assms(1) show ?thesis
      by (simp add: repo_cancel_reservation_def Let_def get_reservation_by_id_def
            get_item_put_item)
  qed
qed

lemma cascade_keeps_cancelled:
  assumes "get_reservation_by_id repo rid = Some r" and "status r = ''Cancelled''"
  shows "get_reservation_by_id (cascade restriction xs repo) rid = Some r"
  using assms
proof (induction xs arbitrary: repo)
  case Nil
  then show ?case by simp
next
  case (Cons x xs)
  show ?case
  proof (cases "cascade_cancels restriction x")
    case False
    with Cons show ?thesis by simp
  next
    case True
    show ?thesis
    proof (cases "res_id x")
      case None
      with True Cons show ?thesis by simp
    next
      case (Some rid')
      have "get_reservation_by_id (snd (repo_cancel_reservation repo rid')) rid = Some r"
        using Cons.prems by (rule repo_cancel_keeps_cancelled)
      then have "get_reservation_by_id
          (cascade restriction xs (snd (repo_cancel_reservation repo rid'))) rid = Some r"
        using Cons.prems(2) by (rule Cons.IH)
      with True Some show ?thesis by simp
    qed
  qed
qed

lemma cascade_restrictions_table:
  "restrictions_table (cascade restriction xs repo) = restrictions_table repo"
proof (induction xs arbitrary: repo)
  case Nil
  then show ?case by simp
next
  case (Cons x xs)
  have "restrictions_table (snd (repo_cancel_reservation repo rid')) = restrictions_table repo"
    for rid'
    by (simp add: repo_cancel_reservation_def Let_def split: option.splits)
  with Cons show ?case
    by (simp split: option.splits)
qed

lemma create_reservation_store:
  "(fst (create_reservation today new_id payload repo) = Inl e \<longrightarrow>
      snd (create_reservation today new_id payload repo) = repo) \<and>
   (fst (create_reservation today new_id payload repo) = Inr res \<longrightarrow>
      snd (create_reservation today new_id payload repo) =
        repo\<lparr>reservations_table := put_item res_id res (reservations_table repo)\<rparr> \<and>
      res_id res = Some new_id)"
proof (cases "validate_reservation_payload today payload repo")
  case (Inl e')
  then show ?thesis
    by (simp add: create_reservation_def)
next
  case (Inr tc)
  obtain t c where "tc = (t, c)" by (cases tc)
  with Inr have eq: "create_reservation today new_id payload repo =
      after_validation today new_id payload repo c"
    by (simp add: create_reservation_after_validation)
  show ?thesis
    unfolding eq
    using after_validation_error_store [of today new_id payload repo c e]
      after_validation_success_store [of today new_id payload repo c res]
    by auto
qed

lemma create_reservation_keeps_cancelled:
  assumes "get_reservation_by_id repo new_id = None"
    and "get_reservation_by_id repo rid = Some r"
  shows "get_reservation_by_id (snd (create_reservation today new_id payload repo)) rid = Some r"
proof (cases "fst (create_reservation today new_id payload repo)")
  case (Inl e)
  with create_reservation_store [of today new_id payload repo e] assms(2) show ?thesis by simp
next
  case (Inr res)
  then have st: "snd (create_reservation today new_id payload repo) =
      repo\<lparr>reservations_table := put_item res_id res (reservations_table repo)\<rparr>"
    and id: "res_id res = Some new_id"
    using create_reservation_store [of today new_id payload repo _ res] by simp_all
  from assms have "new_id \<noteq> rid" by auto
  with assms(2) id show ?thesis
    unfolding st by (simp add: get_reservation_by_id_def get_item_put_item)
qed

lemma cancel_reservation_keeps_cancelled:
  assumes "get_reservation_by_id repo rid = Some r" and "status r = ''Cancelled''"
  shows "get_reservation_by_id (snd (cancel_reservation rid' sid repo)) rid = Some r"
proof -
  have "snd (cancel_reservation rid' sid repo) = repo \<or>
        snd (cancel_reservation rid' sid repo) = snd (repo_cancel_reservation repo rid')"
    by (auto simp: cancel_reservation_def split: option.splits prod.splits)
  with assms repo_cancel_keeps_cancelled [OF assms] show ?thesis by auto
qed

lemma create_restriction_keeps_cancelled:
  assumes "get_reservation_by_id repo rid = Some r" and "status r = ''Cancelled''"
  shows "get_reservation_by_id (snd (create_restriction new_id actor cid rpayload repo)) rid =
           Some r"
proof -
  have added: "get_reservation_by_id (snd (add_restriction new_id x repo)) rid = Some r" for x
    using assms(1) by (simp add: add_restriction_def Let_def get_reservation_by_id_def)
  let ?x = "\<lparr>rst_id = None, rst_canteenId = cid, startDate = dto_startDate rpayload,
             endDate = dto_endDate rpayload, rst_workingHours = dto_workingHours rpayload\<rparr>"
  have "snd (create_restriction new_id actor cid rpayload repo) = repo \<or>
        snd (create_restriction new_id actor cid rpayload repo) =
           cascade (fst (add_restriction new_id ?x repo))
             (reservations_table (snd (add_restriction new_id ?x repo)))
             (snd (add_restriction new_id ?x repo))"
    by (simp add: create_restriction_def case_prod_beta split: option.splits)
  with assms(1) cascade_keeps_cancelled [OF added assms(2)] show ?thesis by auto
qed

lemma step_keeps_cancelled:
  assumes "step repo repo'"
    and "get_reservation_by_id repo rid = Some r" and "status r = ''Cancelled''"
  shows "get_reservation_by_id repo' rid = Some r"
  using assms
proof (induction rule: step.induct)
  case (step_create_reservation repo new_id today payload)
  then show ?case by (simp add: create_reservation_keeps_cancelled)
next
  case (step_cancel_reservation repo reservation_id student_id)
  then show ?case by (simp add: cancel_reservation_keeps_cancelled)
next
  case (step_create_restriction repo new_id actor_id canteen_id rpayload)
  then show ?case by (simp add: create_restriction_keeps_cancelled)
next
  case (step_delete_restriction repo restriction_id)
  then show ?case by (simp add: delete_restriction_def get_reservation_by_id_def)
qed

lemma run_keeps_cancelled:
  assumes "run repo repo'"
    and "get_reservation_by_id repo rid = Some r" and "status r = ''Cancelled''"
  shows "get_reservation_by_id repo' rid = Some r"
  using assms
proof (induction rule: run.induct)
  case (run_refl repo)
  then show ?case by simp
next
  case (run_step repo repo' repo'')
  then show ?case by (simp add: step_keeps_cancelled)
qed

section \<open>Cancellation is terminal\<close>

text \<open>
  C6: along any sequence of calls of the exposed operations (\<open>create_reservation\<close>,
  \<open>cancel_reservation\<close>, \<open>create_restriction\<close> with its cascade, and the removal of a
  restriction), a reservation whose status is \<open>Cancelled\<close> is still stored with status
  \<open>Cancelled\<close>, never \<open>Active\<close>, afterwards.
\<close>

theorem cancelled_is_terminal:
  assumes "run repo repo'"
    and "get_reservation_by_id repo reservation_id = Some res"
    and "status res = ''Cancelled''"
  shows "\<exists>res'. get_reservation_by_id repo' reservation_id = Some res' \<and>
           status res' = ''Cancelled'' \<and> status res' \<noteq> ''Active''"
  using run_keeps_cancelled [OF assms] assms(3) by simp

theorem cancelled_is_terminal_witness:
  "get_reservation_by_id ex_booked ''r1'' = Some (ex_res ''r1'' ''s1'' ex_day 8 0 60 ''Active'') \<and>
   fst (create_restriction ''x1'' ''a1'' ''c1'' ex_closed_payload ex_booked) =
     Inr \<lparr>rst_id = Some ''x1'', rst_canteenId = ''c1'', startDate = ex_day, endDate = ex_day,
          rst_workingHours = []\<rparr> \<and>
   get_reservation_by_id (snd (create_restriction ''x1'' ''a1'' ''c1'' ex_closed_payload ex_booked))
     ''r1'' = Some (ex_res ''r1'' ''s1'' ex_day 8 0 60 ''Cancelled'') \<and>
   restrictions_table (delete_restriction ''x1''
     (snd (create_restriction ''x1'' ''a1'' ''c1'' ex_closed_payload ex_booked))) = [] \<and>
   run (snd (create_restriction ''x1'' ''a1'' ''c1'' ex_closed_payload ex_booked))
     (delete_restriction ''x1''
       (snd (create_restriction ''x1'' ''a1'' ''c1'' ex_closed_payload ex_booked))) \<and>
   (\<exists>res'. get_reservation_by_id (delete_restriction ''x1''
       (snd (create_restriction ''x1'' ''a1'' ''c1'' ex_closed_payload ex_booked))) ''r1'' =
       Some res' \<and> status res' = ''Cancelled'' \<and> status res' \<noteq> ''Active'')"
proof -
  let ?s1 = "snd (create_restriction ''x1'' ''a1'' ''c1'' ex_closed_payload ex_booked)"
  let ?s2 = "delete_restriction ''x1'' ?s1"
  let ?c = "ex_res ''r1'' ''s1'' ex_day 8 0 60 ''Cancelled''"
  have before: "get_reservation_by_id ex_booked ''r1'' =
      Some (ex_res ''r1'' ''s1'' ex_day 8 0 60 ''Active'')"
    by code_simp
  have created: "fst (create_restriction ''x1'' ''a1'' ''c1'' ex_closed_payload ex_booked) =
     Inr \<lparr>rst_id = Some ''x1'', rst_canteenId = ''c1'', startDate = ex_day, endDate = ex_day,
          rst_workingHours = []\<rparr>"
    by code_simp
  have cancelled: "get_reservation_by_id ?s1 ''r1'' = Some ?c"
    by code_simp
  have st: "status ?c = ''Cancelled''"
    by (simp add: ex_res_def)
  have deleted: "restrictions_table ?s2 = []"
    by code_simp
  have "step ?s1 ?s2"
    by (rule step_delete_restriction)
  with run_refl have r: "run ?s1 ?s2"
    by (rule run_step)
  from cancelled_is_terminal [OF r cancelled st]
  have after: "\<exists>res'. get_reservation_by_id ?s2 ''r1'' = Some res' \<and>
      status res' = ''Cancelled'' \<and> status res' \<noteq> ''Active''" .
  show ?thesis
    by (intro conjI before created cancelled deleted r after)
qed

section \<open>The cascade on a table with one item for each key\<close>

lemma keys_same_item:
  assumes "distinct (map res_id tbl)" and "x \<in> set tbl" and "y \<in> set tbl"
    and "res_id x = res_id y"
  shows "x = y"
  using assms by (meson distinct_map inj_onD)

lemma repo_cancel_table:
  assumes "reservation_keys_ok repo"
  shows "reservations_table (snd (repo_cancel_reservation repo rid)) =
           map (\<lambda>r. if res_id r = Some rid then r\<lparr>status := ''Cancelled''\<rparr> else r)
             (reservations_table repo)"
proof (cases "get_reservation_by_id repo rid")
  case None
  then have "\<forall>x\<in>set (reservations_table repo). res_id x \<noteq> Some rid"
    by (simp add: get_reservation_by_id_def get_item_None_iff)
  then have "map (\<lambda>r. if res_id r = Some rid then r\<lparr>status := ''Cancelled''\<rparr> else r)
             (reservations_table repo) = reservations_table repo"
    by (simp add: map_idI)
  with None show ?thesis
    by (simp add: repo_cancel_reservation_def)
next
  case (Some r0)
  then have r0: "res_id r0 = Some rid" "r0 \<in> set (reservations_table repo)"
    by (auto dest: get_reservation_by_id_res_id)
  from assms have d: "distinct (map res_id (reservations_table repo))"
    by (simp add: reservation_keys_ok_def)
  have same: "x = r0" if "x \<in> set (reservations_table repo)" "res_id x = Some rid" for x
    using d that(1) r0(2) by (rule keys_same_item) (simp add: that(2) r0(1))
  from r0 have ex: "list_ex (\<lambda>x. res_id x = Some rid) (reservations_table repo)"
    by (auto simp: list_ex_iff)
  have "map (\<lambda>x. if res_id x = Some rid then r0\<lparr>status := ''Cancelled''\<rparr> else x)
          (reservations_table repo) =
        map (\<lambda>r. if res_id r = Some rid then r\<lparr>status := ''Cancelled''\<rparr> else r)
          (reservations_table repo)"
    by (rule map_cong) (auto dest: same)
  with Some r0(1) ex show ?thesis
    by (simp add: repo_cancel_reservation_def Let_def put_item_def)
qed

lemma repo_cancel_keys_ok:
  assumes "reservation_keys_ok repo"
  shows "reservation_keys_ok (snd (repo_cancel_reservation repo rid))"
proof -
  let ?f = "\<lambda>r. if res_id r = Some rid then r\<lparr>status := ''Cancelled''\<rparr> else r"
  have keys: "map res_id (map ?f (reservations_table repo)) =
      map res_id (reservations_table repo)"
    by simp
  from assms have some: "list_all (\<lambda>r. res_id r \<noteq> None) (map ?f (reservations_table repo))"
    by (auto simp: reservation_keys_ok_def list_all_iff)
  from assms have "distinct (map res_id (reservations_table repo))"
    by (simp add: reservation_keys_ok_def)
  with some show ?thesis
    unfolding reservation_keys_ok_def repo_cancel_table [OF assms] keys
    by (rule conjI [rotated])
qed

text \<open>The cascade over a snapshot \<open>xs\<close> cancels the stored reservations whose key is the key
  of a reservation of \<open>xs\<close> that the restriction makes inadmissible.\<close>

lemma cascade_table:
  assumes "reservation_keys_ok repo"
  shows "reservations_table (cascade restriction xs repo) =
           map (\<lambda>r. if \<exists>x\<in>set xs. cascade_cancels restriction x \<and> res_id x = res_id r
                     then r\<lparr>status := ''Cancelled''\<rparr> else r)
             (reservations_table repo)"
  using assms
proof (induction xs arbitrary: repo)
  case Nil
  then show ?case by (simp add: map_idI)
next
  case (Cons x xs)
  from Cons.prems have ids: "\<forall>r\<in>set (reservations_table repo). res_id r \<noteq> None"
    by (simp add: reservation_keys_ok_def list_all_iff)
  show ?case
  proof (cases "cascade_cancels restriction x")
    case False
    with Cons show ?thesis by simp
  next
    case True
    show ?thesis
    proof (cases "res_id x")
      case None
      have "map (\<lambda>r. if \<exists>y\<in>set (x # xs). cascade_cancels restriction y \<and> res_id y = res_id r
                     then r\<lparr>status := ''Cancelled''\<rparr> else r) (reservations_table repo) =
            map (\<lambda>r. if \<exists>y\<in>set xs. cascade_cancels restriction y \<and> res_id y = res_id r
                     then r\<lparr>status := ''Cancelled''\<rparr> else r) (reservations_table repo)"
        using ids None by (intro map_cong) auto
      with True None Cons show ?thesis by simp
    next
      case (Some rid)
      let ?repo = "snd (repo_cancel_reservation repo rid)"
      have ok: "reservation_keys_ok ?repo"
        using Cons.prems by (rule repo_cancel_keys_ok)
      have "reservations_table (cascade restriction xs ?repo) =
          map (\<lambda>r. if \<exists>y\<in>set xs. cascade_cancels restriction y \<and> res_id y = res_id r
                     then r\<lparr>status := ''Cancelled''\<rparr> else r) (reservations_table ?repo)"
        using ok by (rule Cons.IH)
      also have "\<dots> = map (\<lambda>r. if \<exists>y\<in>set (x # xs). cascade_cancels restriction y \<and> res_id y = res_id r
                     then r\<lparr>status := ''Cancelled''\<rparr> else r) (reservations_table repo)"
        unfolding repo_cancel_table [OF Cons.prems] map_map
        using True Some by (intro map_cong) auto
      finally show ?thesis
        using True Some by simp
    qed
  qed
qed

lemma cascade_snapshot:
  assumes "reservation_keys_ok repo"
  shows "reservations_table (cascade restriction (reservations_table repo) repo) =
           map (\<lambda>r. if cascade_cancels restriction r then r\<lparr>status := ''Cancelled''\<rparr> else r)
             (reservations_table repo)"
proof -
  from assms have d: "distinct (map res_id (reservations_table repo))"
    by (simp add: reservation_keys_ok_def)
  have "(\<exists>x\<in>set (reservations_table repo). cascade_cancels restriction x \<and> res_id x = res_id r)
          \<longleftrightarrow> cascade_cancels restriction r"
    if "r \<in> set (reservations_table repo)" for r
    using keys_same_item [OF d _ that] that by blast
  then show ?thesis
    unfolding cascade_table [OF assms] by (intro map_cong) auto
qed

section \<open>Every reachable store has one item for each reservation id\<close>

lemma cascade_keys_ok:
  "reservation_keys_ok repo \<Longrightarrow> reservation_keys_ok (cascade restriction xs repo)"
proof (induction xs arbitrary: repo)
  case Nil
  then show ?case by simp
next
  case (Cons x xs)
  then show ?case
    by (auto simp: repo_cancel_keys_ok split: option.splits)
qed

lemma create_reservation_keys_ok:
  assumes "reservation_keys_ok repo" and "get_reservation_by_id repo new_id = None"
  shows "reservation_keys_ok (snd (create_reservation today new_id payload repo))"
proof (cases "fst (create_reservation today new_id payload repo)")
  case (Inl e)
  with create_reservation_store [of today new_id payload repo e] assms(1) show ?thesis by simp
next
  case (Inr res)
  then have st: "snd (create_reservation today new_id payload repo) =
      repo\<lparr>reservations_table := put_item res_id res (reservations_table repo)\<rparr>"
    and id: "res_id res = Some new_id"
    using create_reservation_store [of today new_id payload repo _ res] by simp_all
  from assms(2) have fresh: "\<forall>x\<in>set (reservations_table repo). res_id x \<noteq> Some new_id"
    by (simp add: get_reservation_by_id_def get_item_None_iff)
  then have "put_item res_id res (reservations_table repo) = reservations_table repo @ [res]"
    by (simp add: put_item_def list_ex_iff id)
  with assms(1) fresh id show ?thesis
    unfolding st reservation_keys_ok_def by (auto simp: list_all_iff)
qed

lemma step_keys_ok:
  assumes "step repo repo'" and "reservation_keys_ok repo"
  shows "reservation_keys_ok repo'"
  using assms
proof (induction rule: step.induct)
  case (step_create_reservation repo new_id today payload)
  then show ?case by (simp add: create_reservation_keys_ok)
next
  case (step_cancel_reservation repo reservation_id student_id)
  have "snd (cancel_reservation reservation_id student_id repo) = repo \<or>
        snd (cancel_reservation reservation_id student_id repo) =
          snd (repo_cancel_reservation repo reservation_id)"
    by (auto simp: cancel_reservation_def split: option.splits prod.splits)
  with step_cancel_reservation show ?case
    by (auto simp: repo_cancel_keys_ok)
next
  case (step_create_restriction repo new_id actor_id canteen_id rpayload)
  let ?x = "\<lparr>rst_id = None, rst_canteenId = canteen_id, startDate = dto_startDate rpayload,
             endDate = dto_endDate rpayload, rst_workingHours = dto_workingHours rpayload\<rparr>"
  have added: "reservation_keys_ok (snd (add_restriction new_id ?x repo))"
    using step_create_restriction
    by (simp add: add_restriction_def Let_def reservation_keys_ok_def)
  have "snd (create_restriction new_id actor_id canteen_id rpayload repo) = repo \<or>
        snd (create_restriction new_id actor_id canteen_id rpayload repo) =
           cascade (fst (add_restriction new_id ?x repo))
             (reservations_table (snd (add_restriction new_id ?x repo)))
             (snd (add_restriction new_id ?x repo))"
    by (simp add: create_restriction_def case_prod_beta split: option.splits)
  with step_create_restriction cascade_keys_ok [OF added] show ?case by auto
next
  case (step_delete_restriction repo restriction_id)
  then show ?case by (simp add: delete_restriction_def reservation_keys_ok_def)
qed

lemma run_keys_ok:
  assumes "run repo repo'" and "reservation_keys_ok repo"
  shows "reservation_keys_ok repo'"
  using assms by (induction rule: run.induct) (auto intro: step_keys_ok)

section \<open>What the cascade cancels\<close>

text \<open>
  C9: when \<open>create_restriction\<close> succeeds, on a store whose reservations have one item for
  each id, the reservations afterwards are those before with exactly these set to
  \<open>Cancelled\<close>: the Active reservations of the canteen whose date lies in the inclusive range
  from \<open>startDate\<close> to \<open>endDate\<close> and whose slot is not fully contained in any working hour of
  the restriction. Every other reservation, and every other field, is as before.
\<close>

theorem cascade_cancels_exactly:
  assumes "fst (create_restriction new_id actor_id canteen_id payload repo) = Inr restriction"
    and "reservation_keys_ok repo"
  shows "reservations_table (snd (create_restriction new_id actor_id canteen_id payload repo)) =
           map (\<lambda>r. if status r = ''Active'' \<and> canteenId r = canteen_id \<and>
                        dto_startDate payload \<le> res_date r \<and>
                        res_date r \<le> dto_endDate payload \<and>
                        \<not> (\<exists>h\<in>set (dto_workingHours payload).
                             within (reservation_start r) (reservation_end r)
                               (combine (res_date r) (from_time h))
                               (combine (res_date r) (to_time h)))
                     then r\<lparr>status := ''Cancelled''\<rparr> else r)
             (reservations_table repo)"
proof -
  let ?x = "\<lparr>rst_id = None, rst_canteenId = canteen_id, startDate = dto_startDate payload,
             endDate = dto_endDate payload, rst_workingHours = dto_workingHours payload\<rparr>"
  let ?repo = "snd (add_restriction new_id ?x repo)"
  let ?rst = "fst (add_restriction new_id ?x repo)"
  have tbl: "reservations_table ?repo = reservations_table repo"
    by (simp add: add_restriction_def Let_def)
  with assms(2) have ok: "reservation_keys_ok ?repo"
    by (simp add: reservation_keys_ok_def)
  have fields: "rst_canteenId ?rst = canteen_id" "startDate ?rst = dto_startDate payload"
    "endDate ?rst = dto_endDate payload" "rst_workingHours ?rst = dto_workingHours payload"
    by (simp_all add: add_restriction_def Let_def)
  have cancels: "cascade_cancels ?rst r \<longleftrightarrow>
      status r = ''Active'' \<and> canteenId r = canteen_id \<and>
      dto_startDate payload \<le> res_date r \<and> res_date r \<le> dto_endDate payload \<and>
      \<not> (\<exists>h\<in>set (dto_workingHours payload).
             within (reservation_start r) (reservation_end r)
               (combine (res_date r) (from_time h)) (combine (res_date r) (to_time h)))" for r
    unfolding cascade_cancels_def admissible_def fields list_ex_iff ..
  from assms(1) have "snd (create_restriction new_id actor_id canteen_id payload repo) =
      cascade ?rst (reservations_table ?repo) ?repo"
    by (simp add: create_restriction_def case_prod_beta split: option.splits if_splits)
  then have "reservations_table
        (snd (create_restriction new_id actor_id canteen_id payload repo)) =
      map (\<lambda>r. if cascade_cancels ?rst r then r\<lparr>status := ''Cancelled''\<rparr> else r)
        (reservations_table ?repo)"
    by (simp only: cascade_snapshot [OF ok])
  then show ?thesis
    by (simp only: cancels tbl)
qed

theorem cascade_cancels_exactly_witness:
  "fst (create_restriction ''x1'' ''a1'' ''c1'' ex_restriction_payload ex_cascade_store) =
     Inr ex_restriction \<and>
   reservation_keys_ok ex_cascade_store \<and>
   reservations_table
     (snd (create_restriction ''x1'' ''a1'' ''c1'' ex_restriction_payload ex_cascade_store)) =
     [ex_res ''r1'' ''s1'' ex_day 8 0 30 ''Active'',
      ex_res ''r2'' ''s1'' ex_day 8 30 30 ''Active'',
      ex_res ''r3'' ''s1'' ex_day 8 30 60 ''Cancelled'',
      ex_res ''r4'' ''s1'' ex_day 9 0 30 ''Cancelled'',
      ex_res ''r5'' ''s1'' (ex_day - 1) 9 0 30 ''Active'',
      ex_res ''r6'' ''s1'' (ex_day + 1) 9 0 30 ''Active'']"
proof -
  have h1: "fst (create_restriction ''x1'' ''a1'' ''c1'' ex_restriction_payload ex_cascade_store) =
     Inr ex_restriction"
    by code_simp
  have h2: "reservation_keys_ok ex_cascade_store"
    by code_simp
  have m: "map (\<lambda>r. if status r = ''Active'' \<and> canteenId r = ''c1'' \<and>
                        dto_startDate ex_restriction_payload \<le> res_date r \<and>
                        res_date r \<le> dto_endDate ex_restriction_payload \<and>
                        \<not> (\<exists>h\<in>set (dto_workingHours ex_restriction_payload).
                             within (reservation_start r) (reservation_end r)
                               (combine (res_date r) (from_time h))
                               (combine (res_date r) (to_time h)))
                     then r\<lparr>status := ''Cancelled''\<rparr> else r)
             (reservations_table ex_cascade_store) =
     [ex_res ''r1'' ''s1'' ex_day 8 0 30 ''Active'',
      ex_res ''r2'' ''s1'' ex_day 8 30 30 ''Active'',
      ex_res ''r3'' ''s1'' ex_day 8 30 60 ''Cancelled'',
      ex_res ''r4'' ''s1'' ex_day 9 0 30 ''Cancelled'',
      ex_res ''r5'' ''s1'' (ex_day - 1) 9 0 30 ''Active'',
      ex_res ''r6'' ''s1'' (ex_day + 1) 9 0 30 ''Active'']"
    by code_simp
  from cascade_cancels_exactly [OF h1 h2] m
  have "reservations_table
     (snd (create_restriction ''x1'' ''a1'' ''c1'' ex_restriction_payload ex_cascade_store)) =
     [ex_res ''r1'' ''s1'' ex_day 8 0 30 ''Active'',
      ex_res ''r2'' ''s1'' ex_day 8 30 30 ''Active'',
      ex_res ''r3'' ''s1'' ex_day 8 30 60 ''Cancelled'',
      ex_res ''r4'' ''s1'' ex_day 9 0 30 ''Cancelled'',
      ex_res ''r5'' ''s1'' (ex_day - 1) 9 0 30 ''Active'',
      ex_res ''r6'' ''s1'' (ex_day + 1) 9 0 30 ''Active'']"
    by (rule trans)
  with h1 h2 show ?thesis
    by (intro conjI)
qed

end
